theory Spec2Isabelle
  imports
    Complex_Main
    "HOL-Library.Multiset"
    "HOL-Library.Char_ord"
    "HOL-Library.List_Lexorder"
begin

section \<open>Data model\<close>

text \<open>
  The store of the dudamel plugin holds projects and records; every record may carry an
  embedding vector. JavaScript numbers are modelled as exact reals (rounding is not
  modelled), SQL \<open>TEXT\<close> columns and ISO timestamps as strings, row identifiers as
  natural numbers. A table is the list of its rows in rowid order.
\<close>

type_synonym vec = "real list"

record project_row =
  p_id :: nat
  p_name :: string
  p_created_at :: string
  p_updated_at :: string

text \<open>Row of table \<open>record\<close> in the legacy (sqlite-vec) schema: no embedding column.\<close>

record record_row =
  r_id :: nat
  r_project_id :: nat
  r_kind :: string
  r_title :: string
  r_body :: string
  r_status :: string
  r_created_at :: string
  r_updated_at :: string

text \<open>Row of table \<open>record\<close> in the libsql schema: the embedding is an \<open>F32_BLOB\<close> column,
  \<open>None\<close> is SQL \<open>NULL\<close>.\<close>

record lrecord_row =
  l_id :: nat
  l_project_id :: nat
  l_kind :: string
  l_title :: string
  l_body :: string
  l_status :: string
  l_embedding :: "vec option"
  l_created_at :: string
  l_updated_at :: string

text \<open>What \<open>get\<close> returns: the record columns (never the embedding) joined with the
  project name.\<close>

record wire_row =
  w_id :: nat
  w_project_id :: nat
  w_kind :: string
  w_title :: string
  w_body :: string
  w_status :: string
  w_created_at :: string
  w_updated_at :: string
  w_project :: string

text \<open>What \<open>list\<close> selects.\<close>

record list_row =
  li_id :: nat
  li_kind :: string
  li_title :: string
  li_status :: string
  li_updated_at :: string
  li_project :: string

text \<open>What \<open>search\<close> returns. The legacy query does not select \<open>project_id\<close>
  (\<open>None\<close> there).\<close>

record search_row =
  s_id :: nat
  s_project_id :: "nat option"
  s_kind :: string
  s_title :: string
  s_body :: string
  s_status :: string
  s_created_at :: string
  s_updated_at :: string
  s_project :: string
  similarity :: real

text \<open>The libsql store: tables \<open>project\<close> and \<open>record\<close>, and the \<open>AUTOINCREMENT\<close>
  counter of \<open>record\<close> (the largest rowid handed out so far).\<close>

record lx_db =
  lx_project :: "project_row list"
  lx_record :: "lrecord_row list"
  lx_seq :: nat

text \<open>The legacy store: the same two tables, plus the \<open>vec0\<close> virtual table
  \<open>record_embedding (record_id INTEGER PRIMARY KEY, embedding FLOAT[384])\<close>.\<close>

record sv_db =
  sv_project :: "project_row list"
  sv_record :: "record_row list"
  sv_record_embedding :: "(nat \<times> vec) list"
  sv_seq :: nat

text \<open>The statements an upsert issues; a storage fault can hit any of them.\<close>

datatype stmt =
  DedupLookup | UpdateRecord | DeleteEmbedding | InsertEmbedding | InsertRecord | SelectRecord

datatype error =
  CheckConstraint string
  | ForeignKeyConstraint
  | UniqueConstraint string
  | StorageFault stmt
  | BackendFault string
  | NotInitialised
  | Error string

text \<open>The argument object of \<open>upsert\<close>: \<open>{ id, projectId, kind, title, body = '', status = 'open' }\<close>.
  \<open>None\<close> is \<open>undefined\<close>.\<close>

record upsert_args =
  a_id :: "nat option"
  a_projectId :: "nat option"
  a_kind :: string
  a_title :: string
  a_body :: "string option"
  a_status :: "string option"

section \<open>Vectors and the nearest-neighbour primitive\<close>

definition dot :: "vec \<Rightarrow> vec \<Rightarrow> real" where
  "dot a b = sum_list (map2 (*) a b)"

text \<open>The metric both vector indexes are declared with (\<open>distance_metric=cosine\<close>,
  \<open>metric=cosine\<close>).\<close>

definition cosine_distance :: "vec \<Rightarrow> vec \<Rightarrow> real" where
  "cosine_distance a b = 1 - dot a b / (sqrt (dot a a) * sqrt (dot b b))"


text \<open>\<open>_computeSimilarity\<close>: 0 for a \<open>NULL\<close> blob, else the dot product over the indices of
  the query. Reading the stored array past its end gives \<open>undefined\<close>, and the sum is then
  \<open>NaN\<close>, modelled as \<open>None\<close>.\<close>

definition computeSimilarity :: "vec \<Rightarrow> vec option \<Rightarrow> real option" where
  "computeSimilarity queryEmbedding storedBlob =
     (case storedBlob of
        None \<Rightarrow> Some 0
      | Some stored \<Rightarrow>
          if length queryEmbedding \<le> length stored
          then Some (dot queryEmbedding stored) else None)"

text \<open>\<open>x >= t\<close> in JavaScript: false when \<open>x\<close> is \<open>NaN\<close>.\<close>

definition js_ge :: "real option \<Rightarrow> real \<Rightarrow> bool" where
  "js_ge x t = (case x of None \<Rightarrow> False | Some v \<Rightarrow> t \<le> v)"

text \<open>\<open>vector_top_k('idx_record_embedding', vector(?), k)\<close>: the \<open>k\<close> indexed rows nearest to
  the query, nearest first. The index holds the rows with a non-\<open>NULL\<close> embedding. Rows at
  equal distance keep their rowid order.\<close>

definition l_distance :: "vec \<Rightarrow> lrecord_row \<Rightarrow> real" where
  "l_distance q r = (case l_embedding r of None \<Rightarrow> 0 | Some v \<Rightarrow> cosine_distance q v)"

definition vector_top_k :: "vec \<Rightarrow> nat \<Rightarrow> lrecord_row list \<Rightarrow> lrecord_row list" where
  "vector_top_k q k rows =
     take k (sort_key (l_distance q) (filter (\<lambda>r. l_embedding r \<noteq> None) rows))"

text \<open>\<open>WHERE re.embedding MATCH ? AND k = ?\<close> on the \<open>vec0\<close> table: the \<open>k\<close> nearest
  embedding rows with their distance, nearest first.\<close>

definition vec0_knn :: "vec \<Rightarrow> nat \<Rightarrow> (nat \<times> vec) list \<Rightarrow> (nat \<times> real) list" where
  "vec0_knn q k rows =
     take k (sort_key snd (map (\<lambda>(i, v). (i, cosine_distance q v)) rows))"

section \<open>Schema constraints\<close>

definition valid_kind :: "string \<Rightarrow> bool" where
  "valid_kind k = (k \<in> set [''issue'', ''spec'', ''arch'', ''update''])"

definition valid_status :: "string \<Rightarrow> bool" where
  "valid_status s = (s \<in> set [''open'', ''resolved'', ''archived''])"

text \<open>The two \<open>CHECK\<close> constraints of table \<open>record\<close>.\<close>

definition check_constraints :: "string \<Rightarrow> string \<Rightarrow> error option" where
  "check_constraints kind status =
     (if \<not> valid_kind kind then Some (CheckConstraint ''kind'')
      else if \<not> valid_status status then Some (CheckConstraint ''status'')
      else None)"

text \<open>The rowid an \<open>AUTOINCREMENT\<close> insert gets: one more than the largest rowid ever
  used.\<close>

definition next_id :: "nat \<Rightarrow> nat list \<Rightarrow> nat" where
  "next_id seq ids = Suc (fold max ids seq)"

text \<open>JavaScript truthiness of an optional number and of an optional string.\<close>

definition truthy_num :: "nat option \<Rightarrow> bool" where
  "truthy_num x = (case x of None \<Rightarrow> False | Some n \<Rightarrow> n \<noteq> 0)"

definition truthy_str :: "string option \<Rightarrow> bool" where
  "truthy_str x = (case x of None \<Rightarrow> False | Some s \<Rightarrow> s \<noteq> [])"

text \<open>\<open>getCurrentProject\<close> throws before initialisation.\<close>

definition getCurrentProject :: "project_row option \<Rightarrow> error + project_row" where
  "getCurrentProject cur = (case cur of None \<Rightarrow> Inl NotInitialised | Some p \<Rightarrow> Inr p)"

text \<open>The destructuring defaults of \<open>upsert\<close>: \<open>body = ''\<close>, \<open>status = 'open'\<close>.\<close>

definition arg_body :: "upsert_args \<Rightarrow> string" where
  "arg_body a = (case a_body a of None \<Rightarrow> [] | Some b \<Rightarrow> b)"

definition arg_status :: "upsert_args \<Rightarrow> string" where
  "arg_status a = (case a_status a of None \<Rightarrow> ''open'' | Some s \<Rightarrow> s)"

text \<open>The value of \<open>id\<close> inside the branch \<open>if (id)\<close>.\<close>

definition arg_id :: "upsert_args \<Rightarrow> nat" where
  "arg_id a = (case a_id a of None \<Rightarrow> 0 | Some n \<Rightarrow> n)"

text \<open>\<open>const proj = projectId ?? (await this.getCurrentProject()).id\<close>.\<close>

definition resolve_proj :: "project_row option \<Rightarrow> upsert_args \<Rightarrow> error + nat" where
  "resolve_proj cur a =
     (case a_projectId a of
        Some p \<Rightarrow> Inr p
      | None \<Rightarrow> map_sum id p_id (getCurrentProject cur))"

text \<open>A run in which no statement hits a storage fault.\<close>

definition no_faults :: "stmt \<Rightarrow> bool" where
  "no_faults s = False"

text \<open>\<open>SELECT id FROM project WHERE name = ?\<close>, first row.\<close>

definition project_by_name :: "project_row list \<Rightarrow> string \<Rightarrow> project_row option" where
  "project_by_name ps name = find (\<lambda>p. p_name p = name) ps"

definition project_by_id :: "project_row list \<Rightarrow> nat \<Rightarrow> project_row option" where
  "project_by_id ps i = find (\<lambda>p. p_id p = i) ps"

section \<open>The libsql adapter\<close>

definition l_wire :: "lrecord_row \<Rightarrow> project_row \<Rightarrow> wire_row" where
  "l_wire r p =
     \<lparr>w_id = l_id r, w_project_id = l_project_id r, w_kind = l_kind r, w_title = l_title r,
      w_body = l_body r, w_status = l_status r, w_created_at = l_created_at r,
      w_updated_at = l_updated_at r, w_project = p_name p\<rparr>"

text \<open>\<open>LibsqlAdapter.get\<close>: the record joined with its project, or \<open>null\<close>.\<close>

definition lx_select_record :: "lx_db \<Rightarrow> nat \<Rightarrow> wire_row option" where
  "lx_select_record db i =
     (case find (\<lambda>r. l_id r = i) (lx_record db) of
        None \<Rightarrow> None
      | Some r \<Rightarrow>
          (case project_by_id (lx_project db) (l_project_id r) of
             None \<Rightarrow> None
           | Some p \<Rightarrow> Some (l_wire r p)))"

definition lx_get :: "(stmt \<Rightarrow> bool) \<Rightarrow> lx_db \<Rightarrow> nat \<Rightarrow> error + wire_row option" where
  "lx_get faults db i =
     (if faults SelectRecord then Inl (StorageFault SelectRecord)
      else Inr (lx_select_record db i))"

text \<open>\<open>UPDATE record SET kind, title, body, status, embedding, updated_at WHERE id = ?\<close>.
  A statement that matches no row checks no constraint.\<close>

definition lx_update_by_id ::
  "(stmt \<Rightarrow> bool) \<Rightarrow> nat \<Rightarrow> string \<Rightarrow> string \<Rightarrow> string \<Rightarrow> string \<Rightarrow> vec \<Rightarrow> string
     \<Rightarrow> lx_db \<Rightarrow> error + lx_db" where
  "lx_update_by_id faults i kind title body status e now db =
     (if faults UpdateRecord then Inl (StorageFault UpdateRecord)
      else if \<not> list_ex (\<lambda>r. l_id r = i) (lx_record db) then Inr db
      else
        (case check_constraints kind status of
           Some err \<Rightarrow> Inl err
         | None \<Rightarrow>
             Inr (db\<lparr>lx_record :=
               map (\<lambda>r. if l_id r = i
                        then r\<lparr>l_kind := kind, l_title := title, l_body := body,
                               l_status := status, l_embedding := Some e, l_updated_at := now\<rparr>
                        else r) (lx_record db)\<rparr>)))"

text \<open>\<open>UPDATE record SET title, body, status, embedding, updated_at WHERE id = ?\<close> of the
  dedup branch: the kind is not written.\<close>

definition lx_update_dedup ::
  "(stmt \<Rightarrow> bool) \<Rightarrow> nat \<Rightarrow> string \<Rightarrow> string \<Rightarrow> string \<Rightarrow> vec \<Rightarrow> string
     \<Rightarrow> lx_db \<Rightarrow> error + lx_db" where
  "lx_update_dedup faults i title body status e now db =
     (if faults UpdateRecord then Inl (StorageFault UpdateRecord)
      else if \<not> list_ex (\<lambda>r. l_id r = i) (lx_record db) then Inr db
      else if \<not> valid_status status then Inl (CheckConstraint ''status'')
      else
        Inr (db\<lparr>lx_record :=
          map (\<lambda>r. if l_id r = i
                   then r\<lparr>l_title := title, l_body := body, l_status := status,
                          l_embedding := Some e, l_updated_at := now\<rparr>
                   else r) (lx_record db)\<rparr>))"

text \<open>\<open>INSERT INTO record (project_id, kind, title, body, status, embedding, created_at,
  updated_at)\<close>; returns \<open>lastInsertRowid\<close>. Unlike the legacy adapter, this one sets no
  \<open>foreign_keys\<close> pragma on its connection; the reference to \<open>project\<close> is taken as not
  enforced.\<close>

definition lx_insert ::
  "(stmt \<Rightarrow> bool) \<Rightarrow> nat \<Rightarrow> string \<Rightarrow> string \<Rightarrow> string \<Rightarrow> string \<Rightarrow> vec \<Rightarrow> string
     \<Rightarrow> lx_db \<Rightarrow> error + (nat \<times> lx_db)" where
  "lx_insert faults proj kind title body status e now db =
     (if faults InsertRecord then Inl (StorageFault InsertRecord)
      else
        (case check_constraints kind status of
           Some err \<Rightarrow> Inl err
         | None \<Rightarrow>
             (let i = next_id (lx_seq db) (map l_id (lx_record db)) in
              Inr (i, db\<lparr>lx_record := lx_record db @
                     [\<lparr>l_id = i, l_project_id = proj, l_kind = kind, l_title = title,
                       l_body = body, l_status = status, l_embedding = Some e,
                       l_created_at = now, l_updated_at = now\<rparr>],
                   lx_seq := i\<rparr>))))"

text \<open>The dedup query: the five nearest rows of the whole index, joined with \<open>record\<close>,
  of which the \<open>WHERE\<close> clause keeps those of the project and kind.\<close>

definition lx_dedup_candidates ::
  "(stmt \<Rightarrow> bool) \<Rightarrow> vec \<Rightarrow> nat \<Rightarrow> string \<Rightarrow> lx_db \<Rightarrow> error + lrecord_row list" where
  "lx_dedup_candidates faults e proj kind db =
     (if faults DedupLookup then Inl (StorageFault DedupLookup)
      else Inr (filter (\<lambda>r. l_project_id r = proj \<and> l_kind r = kind)
                  (vector_top_k e 5 (lx_record db))))"

text \<open>\<open>LibsqlAdapter.upsert\<close>. The result is what the call returns or throws, and the store
  as it is afterwards: the statements are issued one by one, with no transaction around
  them.\<close>

definition lx_upsert ::
  "(stmt \<Rightarrow> bool) \<Rightarrow> project_row option \<Rightarrow> upsert_args \<Rightarrow> vec \<Rightarrow> string \<Rightarrow> lx_db
     \<Rightarrow> (error + wire_row option) \<times> lx_db" where
  "lx_upsert faults cur a embedding now db =
     (case resolve_proj cur a of
        Inl err \<Rightarrow> (Inl err, db)
      | Inr proj \<Rightarrow>
          if truthy_num (a_id a) then
            (case lx_update_by_id faults (arg_id a) (a_kind a) (a_title a) (arg_body a)
                    (arg_status a) embedding now db of
               Inl err \<Rightarrow> (Inl err, db)
             | Inr db1 \<Rightarrow> (lx_get faults db1 (arg_id a), db1))
          else
            (case lx_dedup_candidates faults embedding proj (a_kind a) db of
               Inl err \<Rightarrow> (Inl err, db)
             | Inr candidates \<Rightarrow>
                 (case find (\<lambda>row. js_ge (computeSimilarity embedding (l_embedding row)) 0.85)
                         candidates of
                    Some row \<Rightarrow>
                      (case lx_update_dedup faults (l_id row) (a_title a) (arg_body a)
                              (arg_status a) embedding now db of
                         Inl err \<Rightarrow> (Inl err, db)
                       | Inr db1 \<Rightarrow> (lx_get faults db1 (l_id row), db1))
                  | None \<Rightarrow>
                      (case lx_insert faults proj (a_kind a) (a_title a) (arg_body a)
                              (arg_status a) embedding now db of
                         Inl err \<Rightarrow> (Inl err, db)
                       | Inr (i, db1) \<Rightarrow> (lx_get faults db1 i, db1)))))"

text \<open>The options of \<open>search\<close>: \<open>{ kind, projectId, limit = 5 }\<close> (\<open>projectId\<close> is never
  read).\<close>

record search_opts =
  o_kind :: "string option"
  o_limit :: "nat option"

definition kind_filter :: "string option \<Rightarrow> string \<Rightarrow> bool" where
  "kind_filter kind k = (if truthy_str kind \<and> kind \<noteq> Some ''all'' then Some k = kind else True)"

text \<open>The same-project boost of \<open>search\<close>.\<close>

definition boost :: "string \<Rightarrow> string \<Rightarrow> real \<Rightarrow> real" where
  "boost curName project sim = (if project = curName then min 1.0 (sim + 0.1) else sim)"

text \<open>The tail of \<open>search\<close>: \<open>.filter(r => r.similarity >= 0.3).sort((a, b) => b.similarity -
  a.similarity).slice(0, limit)\<close>; \<open>Array.prototype.sort\<close> is stable.\<close>

definition rank_results :: "nat \<Rightarrow> search_row list \<Rightarrow> search_row list" where
  "rank_results limit rows =
     take limit (sort_key (\<lambda>r. - similarity r) (filter (\<lambda>r. 0.3 \<le> similarity r) rows))"

text \<open>The rows the search query of the libsql adapter returns: the \<open>3 * limit\<close> nearest rows,
  joined with their project, optionally of one kind.\<close>

definition lx_search_rows ::
  "vec \<Rightarrow> string option \<Rightarrow> nat \<Rightarrow> lx_db \<Rightarrow> (lrecord_row \<times> project_row) list" where
  "lx_search_rows q kind candidateLimit db =
     filter (\<lambda>(r, p). kind_filter kind (l_kind r))
       (List.map_filter
          (\<lambda>r. map_option (\<lambda>p. (r, p)) (project_by_id (lx_project db) (l_project_id r)))
          (vector_top_k q candidateLimit (lx_record db)))"

definition l_search_row :: "lrecord_row \<Rightarrow> project_row \<Rightarrow> real \<Rightarrow> search_row" where
  "l_search_row r p sim =
     \<lparr>s_id = l_id r, s_project_id = Some (l_project_id r), s_kind = l_kind r,
      s_title = l_title r, s_body = l_body r, s_status = l_status r,
      s_created_at = l_created_at r, s_updated_at = l_updated_at r, s_project = p_name p,
      similarity = sim\<rparr>"

text \<open>\<open>LibsqlAdapter.search\<close>. A row whose similarity is \<open>NaN\<close> stays \<open>NaN\<close> under the boost
  and fails the test \<open>>= 0.3\<close>, so it is dropped before the sort.\<close>

definition lx_search ::
  "project_row option \<Rightarrow> vec \<Rightarrow> search_opts \<Rightarrow> lx_db \<Rightarrow> error + search_row list" where
  "lx_search cur embedding opts db =
     (case getCurrentProject cur of
        Inl err \<Rightarrow> Inl err
      | Inr curProject \<Rightarrow>
          (let limit = (case o_limit opts of None \<Rightarrow> 5 | Some n \<Rightarrow> n);
               candidateLimit = limit * 3;
               rows = List.map_filter
                 (\<lambda>(r, p). map_option
                     (\<lambda>sim. l_search_row r p (boost (p_name curProject) (p_name p) sim))
                     (computeSimilarity embedding (l_embedding r)))
                 (lx_search_rows embedding (o_kind opts) candidateLimit db)
           in Inr (rank_results limit rows)))"

text \<open>The filters of \<open>list\<close>: \<open>{ kind, status, project }\<close>.\<close>

record list_filters =
  f_kind :: "string option"
  f_status :: "string option"
  f_project :: "string option"

text \<open>How \<open>list\<close> resolves its \<open>project\<close> filter to \<open>projectId\<close>; \<open>None\<close> is \<open>undefined\<close>.
  The first argument is the value of the \<open>current\<close> branch.\<close>

definition resolve_project ::
  "error + nat option \<Rightarrow> project_row list \<Rightarrow> string option \<Rightarrow> error + nat option" where
  "resolve_project current ps project =
     (if \<not> truthy_str project \<or> project = Some ''current'' then current
      else if project \<noteq> Some ''*'' then
        Inr (map_option p_id
               (project_by_name ps (case project of None \<Rightarrow> [] | Some n \<Rightarrow> n)))
      else Inr None)"

text \<open>The \<open>WHERE\<close> clause \<open>list\<close> assembles, then \<open>ORDER BY r.updated_at DESC\<close>.\<close>

definition list_where ::
  "nat option \<Rightarrow> string option \<Rightarrow> string option \<Rightarrow> (nat \<times> list_row) list \<Rightarrow> list_row list" where
  "list_where projectId kind status rows =
     (let kept = filter
            (\<lambda>(pid, r).
               (if truthy_num projectId then Some pid = projectId else True)
               \<and> (if truthy_str kind \<and> kind \<noteq> Some ''all'' then Some (li_kind r) = kind else True)
               \<and> (if truthy_str status \<and> status \<noteq> Some ''all''
                   then Some (li_status r) = status else True))
            rows
      in rev (sort_key li_updated_at (rev (map snd kept))))"

text \<open>\<open>FROM record r JOIN project p ON r.project_id = p.id\<close>, with the owning project id
  kept for the \<open>WHERE\<close> clause.\<close>

definition lx_list_rows :: "lx_db \<Rightarrow> (nat \<times> list_row) list" where
  "lx_list_rows db =
     List.map_filter
       (\<lambda>r. map_option
          (\<lambda>p. (l_project_id r,
                 \<lparr>li_id = l_id r, li_kind = l_kind r, li_title = l_title r,
                  li_status = l_status r, li_updated_at = l_updated_at r,
                  li_project = p_name p\<rparr>))
          (project_by_id (lx_project db) (l_project_id r)))
       (lx_record db)"

text \<open>\<open>LibsqlAdapter.list\<close>.\<close>

definition lx_list :: "project_row option \<Rightarrow> list_filters \<Rightarrow> lx_db \<Rightarrow> error + list_row list" where
  "lx_list cur f db =
     (case resolve_project (map_sum id (\<lambda>p. Some (p_id p)) (getCurrentProject cur))
             (lx_project db) (f_project f) of
        Inl err \<Rightarrow> Inl err
      | Inr projectId \<Rightarrow> Inr (list_where projectId (f_kind f) (f_status f) (lx_list_rows db)))"

section \<open>The legacy sqlite-vec adapter\<close>

definition r_wire :: "record_row \<Rightarrow> project_row \<Rightarrow> wire_row" where
  "r_wire r p =
     \<lparr>w_id = r_id r, w_project_id = r_project_id r, w_kind = r_kind r, w_title = r_title r,
      w_body = r_body r, w_status = r_status r, w_created_at = r_created_at r,
      w_updated_at = r_updated_at r, w_project = p_name p\<rparr>"

text \<open>\<open>_getRecord\<close>: \<open>SELECT r.*, p.name AS project FROM record r JOIN project p ... WHERE
  r.id = ?\<close>, or \<open>null\<close>.\<close>

definition sv_select_record :: "sv_db \<Rightarrow> nat \<Rightarrow> wire_row option" where
  "sv_select_record db i =
     (case find (\<lambda>r. r_id r = i) (sv_record db) of
        None \<Rightarrow> None
      | Some r \<Rightarrow>
          (case project_by_id (sv_project db) (r_project_id r) of
             None \<Rightarrow> None
           | Some p \<Rightarrow> Some (r_wire r p)))"

definition sv_getRecord :: "(stmt \<Rightarrow> bool) \<Rightarrow> sv_db \<Rightarrow> nat \<Rightarrow> error + wire_row option" where
  "sv_getRecord faults db i =
     (if faults SelectRecord then Inl (StorageFault SelectRecord)
      else Inr (sv_select_record db i))"

text \<open>\<open>UPDATE record SET kind, title, body, status, updated_at WHERE id = ?\<close>.\<close>

definition sv_update_by_id ::
  "(stmt \<Rightarrow> bool) \<Rightarrow> nat \<Rightarrow> string \<Rightarrow> string \<Rightarrow> string \<Rightarrow> string \<Rightarrow> string
     \<Rightarrow> sv_db \<Rightarrow> error + sv_db" where
  "sv_update_by_id faults i kind title body status now db =
     (if faults UpdateRecord then Inl (StorageFault UpdateRecord)
      else if \<not> list_ex (\<lambda>r. r_id r = i) (sv_record db) then Inr db
      else
        (case check_constraints kind status of
           Some err \<Rightarrow> Inl err
         | None \<Rightarrow>
             Inr (db\<lparr>sv_record :=
               map (\<lambda>r. if r_id r = i
                        then r\<lparr>r_kind := kind, r_title := title, r_body := body,
                               r_status := status, r_updated_at := now\<rparr>
                        else r) (sv_record db)\<rparr>)))"

text \<open>\<open>UPDATE record SET title, body, status, updated_at WHERE id = ?\<close> of the dedup
  branch.\<close>

definition sv_update_dedup ::
  "(stmt \<Rightarrow> bool) \<Rightarrow> nat \<Rightarrow> string \<Rightarrow> string \<Rightarrow> string \<Rightarrow> string \<Rightarrow> sv_db \<Rightarrow> error + sv_db" where
  "sv_update_dedup faults i title body status now db =
     (if faults UpdateRecord then Inl (StorageFault UpdateRecord)
      else if \<not> list_ex (\<lambda>r. r_id r = i) (sv_record db) then Inr db
      else if \<not> valid_status status then Inl (CheckConstraint ''status'')
      else
        Inr (db\<lparr>sv_record :=
          map (\<lambda>r. if r_id r = i
                   then r\<lparr>r_title := title, r_body := body, r_status := status,
                          r_updated_at := now\<rparr>
                   else r) (sv_record db)\<rparr>))"

text \<open>\<open>DELETE FROM record_embedding WHERE record_id = ?\<close>.\<close>

definition sv_delete_embedding :: "(stmt \<Rightarrow> bool) \<Rightarrow> nat \<Rightarrow> sv_db \<Rightarrow> error + sv_db" where
  "sv_delete_embedding faults i db =
     (if faults DeleteEmbedding then Inl (StorageFault DeleteEmbedding)
      else Inr (db\<lparr>sv_record_embedding :=
                  filter (\<lambda>(k, v). k \<noteq> i) (sv_record_embedding db)\<rparr>))"

text \<open>\<open>INSERT INTO record_embedding (record_id, embedding) VALUES (?, ?)\<close>: \<open>record_id\<close> is
  the primary key of the virtual table, which has no reference to \<open>record\<close>.\<close>

definition sv_insert_embedding :: "(stmt \<Rightarrow> bool) \<Rightarrow> nat \<Rightarrow> vec \<Rightarrow> sv_db \<Rightarrow> error + sv_db" where
  "sv_insert_embedding faults i e db =
     (if faults InsertEmbedding then Inl (StorageFault InsertEmbedding)
      else if list_ex (\<lambda>(k, v). k = i) (sv_record_embedding db)
      then Inl (UniqueConstraint ''record_embedding'')
      else Inr (db\<lparr>sv_record_embedding := sv_record_embedding db @ [(i, e)]\<rparr>))"

text \<open>\<open>INSERT INTO record (project_id, kind, title, body, status, created_at, updated_at)\<close>;
  the connection is opened with \<open>foreign_keys = ON\<close>.\<close>

definition sv_insert_record ::
  "(stmt \<Rightarrow> bool) \<Rightarrow> nat \<Rightarrow> string \<Rightarrow> string \<Rightarrow> string \<Rightarrow> string \<Rightarrow> string
     \<Rightarrow> sv_db \<Rightarrow> error + (nat \<times> sv_db)" where
  "sv_insert_record faults proj kind title body status now db =
     (if faults InsertRecord then Inl (StorageFault InsertRecord)
      else
        (case check_constraints kind status of
           Some err \<Rightarrow> Inl err
         | None \<Rightarrow>
             if project_by_id (sv_project db) proj = None then Inl ForeignKeyConstraint
             else
               (let i = next_id (sv_seq db) (map r_id (sv_record db)) in
                Inr (i, db\<lparr>sv_record := sv_record db @
                       [\<lparr>r_id = i, r_project_id = proj, r_kind = kind, r_title = title,
                         r_body = body, r_status = status, r_created_at = now,
                         r_updated_at = now\<rparr>],
                     sv_seq := i\<rparr>))))"

text \<open>The dedup query: the five nearest embedding rows of the whole table, joined with
  \<open>record\<close>, of which the \<open>WHERE\<close> clause keeps those of the project and kind;
  \<open>ORDER BY re.distance LIMIT 1\<close>.\<close>

definition sv_dedup_candidates ::
  "(stmt \<Rightarrow> bool) \<Rightarrow> vec \<Rightarrow> nat \<Rightarrow> string \<Rightarrow> sv_db \<Rightarrow> error + (nat \<times> real) list" where
  "sv_dedup_candidates faults e proj kind db =
     (if faults DedupLookup then Inl (StorageFault DedupLookup)
      else Inr (take 1 (sort_key snd
        (filter
           (\<lambda>(i, d). list_ex (\<lambda>r. r_id r = i \<and> r_project_id r = proj \<and> r_kind r = kind)
                        (sv_record db))
           (vec0_knn e 5 (sv_record_embedding db))))))"

text \<open>The tail of the transaction body, reached when no close match was found: insert the
  record, then its embedding under the new rowid.\<close>

definition sv_insert_new ::
  "(stmt \<Rightarrow> bool) \<Rightarrow> nat \<Rightarrow> upsert_args \<Rightarrow> vec \<Rightarrow> string \<Rightarrow> sv_db
     \<Rightarrow> (error + wire_row option) \<times> sv_db" where
  "sv_insert_new faults proj a embedding now db =
     (case sv_insert_record faults proj (a_kind a) (a_title a) (arg_body a) (arg_status a)
             now db of
        Inl err \<Rightarrow> (Inl err, db)
      | Inr (newId, db1) \<Rightarrow>
          (case sv_insert_embedding faults newId embedding db1 of
             Inl err \<Rightarrow> (Inl err, db1)
           | Inr db2 \<Rightarrow> (sv_getRecord faults db2 newId, db2)))"

text \<open>The function \<open>SqliteVecAdapter.upsert\<close> hands to \<open>db.transaction\<close>: what it returns or
  throws, and the store as its statements have left it at that point.\<close>

text \<open>\<open>vec0\<close> has no \<open>UPDATE\<close>: the embedding of a record is replaced by deleting its row and
  inserting it again; the branch then returns \<open>_getRecord(id)\<close>.\<close>

definition sv_replace_embedding ::
  "(stmt \<Rightarrow> bool) \<Rightarrow> nat \<Rightarrow> vec \<Rightarrow> sv_db \<Rightarrow> (error + wire_row option) \<times> sv_db" where
  "sv_replace_embedding faults i embedding db1 =
     (case sv_delete_embedding faults i db1 of
        Inl err \<Rightarrow> (Inl err, db1)
      | Inr db2 \<Rightarrow>
          (case sv_insert_embedding faults i embedding db2 of
             Inl err \<Rightarrow> (Inl err, db2)
           | Inr db3 \<Rightarrow> (sv_getRecord faults db3 i, db3)))"

definition sv_upsert_body ::
  "(stmt \<Rightarrow> bool) \<Rightarrow> nat \<Rightarrow> upsert_args \<Rightarrow> vec \<Rightarrow> string \<Rightarrow> sv_db
     \<Rightarrow> (error + wire_row option) \<times> sv_db" where
  "sv_upsert_body faults proj a embedding now db =
     (if truthy_num (a_id a) then
        (case sv_update_by_id faults (arg_id a) (a_kind a) (a_title a) (arg_body a)
                (arg_status a) now db of
           Inl err \<Rightarrow> (Inl err, db)
         | Inr db1 \<Rightarrow> sv_replace_embedding faults (arg_id a) embedding db1)
      else
        (case sv_dedup_candidates faults embedding proj (a_kind a) db of
           Inl err \<Rightarrow> (Inl err, db)
         | Inr candidates \<Rightarrow>
             (case candidates of
                (existingId, distance) # _ \<Rightarrow>
                  if distance \<le> 0.15 then
                    (case sv_update_dedup faults existingId (a_title a) (arg_body a)
                            (arg_status a) now db of
                       Inl err \<Rightarrow> (Inl err, db)
                     | Inr db1 \<Rightarrow> sv_replace_embedding faults existingId embedding db1)
                  else sv_insert_new faults proj a embedding now db
              | [] \<Rightarrow> sv_insert_new faults proj a embedding now db)))"

text \<open>\<open>db.transaction(fn)()\<close> of better-sqlite3: commit when \<open>fn\<close> returns, roll back to
  the state before when it throws.\<close>

definition transaction ::
  "('db \<Rightarrow> (error + 'a) \<times> 'db) \<Rightarrow> 'db \<Rightarrow> (error + 'a) \<times> 'db" where
  "transaction fn db =
     (case fn db of
        (Inl err, _) \<Rightarrow> (Inl err, db)
      | (Inr v, db1) \<Rightarrow> (Inr v, db1))"

text \<open>\<open>SqliteVecAdapter.upsert\<close> (and \<open>upsertRecord\<close> of the legacy \<open>db.js\<close>, which has the
  same body).\<close>

definition sv_upsert ::
  "(stmt \<Rightarrow> bool) \<Rightarrow> project_row option \<Rightarrow> upsert_args \<Rightarrow> vec \<Rightarrow> string \<Rightarrow> sv_db
     \<Rightarrow> (error + wire_row option) \<times> sv_db" where
  "sv_upsert faults cur a embedding now db =
     (case resolve_proj cur a of
        Inl err \<Rightarrow> (Inl err, db)
      | Inr proj \<Rightarrow> transaction (sv_upsert_body faults proj a embedding now) db)"

text \<open>The rows the legacy search query returns: the \<open>3 * limit\<close> nearest embedding rows
  joined with their record and project, optionally of one kind, \<open>ORDER BY re.distance\<close>.\<close>

definition sv_search_rows ::
  "vec \<Rightarrow> string option \<Rightarrow> nat \<Rightarrow> sv_db \<Rightarrow> (record_row \<times> project_row \<times> real) list" where
  "sv_search_rows q kind k db =
     sort_key (\<lambda>(r, p, d). d)
       (filter (\<lambda>(r, p, d). kind_filter kind (r_kind r))
          (List.map_filter
             (\<lambda>(i, d).
                case find (\<lambda>r. r_id r = i) (sv_record db) of
                  None \<Rightarrow> None
                | Some r \<Rightarrow>
                    map_option (\<lambda>p. (r, p, d)) (project_by_id (sv_project db) (r_project_id r)))
             (vec0_knn q k (sv_record_embedding db))))"

definition r_search_row :: "record_row \<Rightarrow> project_row \<Rightarrow> real \<Rightarrow> search_row" where
  "r_search_row r p sim =
     \<lparr>s_id = r_id r, s_project_id = None, s_kind = r_kind r,
      s_title = r_title r, s_body = r_body r, s_status = r_status r,
      s_created_at = r_created_at r, s_updated_at = r_updated_at r, s_project = p_name p,
      similarity = sim\<rparr>"

text \<open>\<open>SqliteVecAdapter.search\<close>: the similarity is \<open>1 - distance\<close>.\<close>

definition sv_search ::
  "project_row option \<Rightarrow> vec \<Rightarrow> search_opts \<Rightarrow> sv_db \<Rightarrow> error + search_row list" where
  "sv_search cur embedding opts db =
     (case getCurrentProject cur of
        Inl err \<Rightarrow> Inl err
      | Inr curProject \<Rightarrow>
          (let limit = (case o_limit opts of None \<Rightarrow> 5 | Some n \<Rightarrow> n);
               rows = map
                 (\<lambda>(r, p, distance).
                    r_search_row r p (boost (p_name curProject) (p_name p) (1 - distance)))
                 (sv_search_rows embedding (o_kind opts) (limit * 3) db)
           in Inr (rank_results limit rows)))"

definition sv_list_rows :: "sv_db \<Rightarrow> (nat \<times> list_row) list" where
  "sv_list_rows db =
     List.map_filter
       (\<lambda>r. map_option
          (\<lambda>p. (r_project_id r,
                 \<lparr>li_id = r_id r, li_kind = r_kind r, li_title = r_title r,
                  li_status = r_status r, li_updated_at = r_updated_at r,
                  li_project = p_name p\<rparr>))
          (project_by_id (sv_project db) (r_project_id r)))
       (sv_record db)"

text \<open>\<open>SqliteVecAdapter.list\<close>.\<close>

definition sv_list :: "project_row option \<Rightarrow> list_filters \<Rightarrow> sv_db \<Rightarrow> error + list_row list" where
  "sv_list cur f db =
     (case resolve_project (map_sum id (\<lambda>p. Some (p_id p)) (getCurrentProject cur))
             (sv_project db) (f_project f) of
        Inl err \<Rightarrow> Inl err
      | Inr projectId \<Rightarrow> Inr (list_where projectId (f_kind f) (f_status f) (sv_list_rows db)))"

text \<open>\<open>listRecords\<close> of the legacy \<open>db.js\<close>: as \<open>list\<close>, but the \<open>current\<close> branch reads
  \<open>adapter.currentProject?.id\<close> and so never throws.\<close>

definition listRecords :: "project_row option \<Rightarrow> list_filters \<Rightarrow> sv_db \<Rightarrow> error + list_row list" where
  "listRecords cur f db =
     (case resolve_project (Inr (map_option p_id cur)) (sv_project db) (f_project f) of
        Inl err \<Rightarrow> Inl err
      | Inr projectId \<Rightarrow> Inr (list_where projectId (f_kind f) (f_status f) (sv_list_rows db)))"

section \<open>The migration script\<close>

text \<open>What \<open>migrateFromDb\<close> reports.\<close>

record stats =
  st_projects :: nat
  st_records :: nat
  st_embeddings :: nat

text \<open>The statements of the script against the legacy store are three \<open>SELECT\<close>s; each
  returns its rows and the store as the statement leaves it.\<close>

definition old_select_projects :: "sv_db \<Rightarrow> project_row list \<times> sv_db" where
  "old_select_projects old = (sv_project old, old)"

definition old_select_records :: "sv_db \<Rightarrow> record_row list \<times> sv_db" where
  "old_select_records old = (sv_record old, old)"

text \<open>\<open>SELECT embedding FROM record_embedding WHERE record_id = ?\<close>, first row.\<close>

definition old_embedding :: "sv_db \<Rightarrow> nat \<Rightarrow> vec option" where
  "old_embedding old i = map_option snd (find (\<lambda>(k, v). k = i) (sv_record_embedding old))"

definition old_select_embedding :: "nat \<Rightarrow> sv_db \<Rightarrow> vec option \<times> sv_db" where
  "old_select_embedding i old = (old_embedding old i, old)"

text \<open>A storage fault of the target: the number of the failing statement of the script
  against the target (0 is the schema batch, then the inserts in order) and its message.\<close>

type_synonym fault = "(nat \<times> string) option"

definition fault_here :: "fault \<Rightarrow> nat \<Rightarrow> error option" where
  "fault_here fault n =
     (case fault of
        None \<Rightarrow> None
      | Some (k, msg) \<Rightarrow> if k = n then Some (BackendFault msg) else None)"

text \<open>\<open>createSchema\<close>: a batch of \<open>CREATE TABLE IF NOT EXISTS\<close> and \<open>CREATE INDEX IF NOT
  EXISTS\<close>, which leaves existing tables as they are.\<close>

definition createSchema :: "fault \<Rightarrow> lx_db \<Rightarrow> error + lx_db" where
  "createSchema fault db = (case fault_here fault 0 of Some err \<Rightarrow> Inl err | None \<Rightarrow> Inr db)"

text \<open>\<open>INSERT INTO project (id, name, created_at, updated_at)\<close> with an explicit id: the
  primary key and the \<open>UNIQUE\<close> name are checked; the row takes its place in rowid
  order.\<close>

definition lx_insert_project :: "project_row \<Rightarrow> lx_db \<Rightarrow> error + lx_db" where
  "lx_insert_project p db =
     (if list_ex (\<lambda>q. p_id q = p_id p) (lx_project db) then Inl (UniqueConstraint ''project.id'')
      else if list_ex (\<lambda>q. p_name q = p_name p) (lx_project db)
      then Inl (UniqueConstraint ''project.name'')
      else Inr (db\<lparr>lx_project := insort_key p_id p (lx_project db)\<rparr>))"

text \<open>\<open>INSERT INTO record (id, project_id, kind, title, body, status, embedding, created_at,
  updated_at)\<close> with an explicit id; the \<open>AUTOINCREMENT\<close> counter follows the largest
  rowid.\<close>

definition lx_insert_record_with_id :: "lrecord_row \<Rightarrow> lx_db \<Rightarrow> error + lx_db" where
  "lx_insert_record_with_id r db =
     (if list_ex (\<lambda>q. l_id q = l_id r) (lx_record db) then Inl (UniqueConstraint ''record.id'')
      else
        (case check_constraints (l_kind r) (l_status r) of
           Some err \<Rightarrow> Inl err
         | None \<Rightarrow>
             Inr (db\<lparr>lx_record := insort_key l_id r (lx_record db),
                     lx_seq := max (lx_seq db) (l_id r)\<rparr>)))"

text \<open>The row the script inserts for a legacy record and the result of its embedding
  lookup: \<open>vector(json)\<close> of the stored floats, or \<open>NULL\<close>.\<close>

definition migrated_row :: "record_row \<Rightarrow> vec option \<Rightarrow> lrecord_row" where
  "migrated_row r vec =
     \<lparr>l_id = r_id r, l_project_id = r_project_id r, l_kind = r_kind r, l_title = r_title r,
      l_body = r_body r, l_status = r_status r, l_embedding = vec,
      l_created_at = r_created_at r, l_updated_at = r_updated_at r\<rparr>"

text \<open>The loop over the projects; \<open>n\<close> numbers the statements against the target. The
  result is the number of the next statement, or the error thrown, with the target as it is
  then.\<close>

fun migrate_projects ::
  "fault \<Rightarrow> nat \<Rightarrow> project_row list \<Rightarrow> lx_db \<Rightarrow> (error + nat) \<times> lx_db" where
  "migrate_projects fault n [] new = (Inr n, new)"
| "migrate_projects fault n (p # ps) new =
     (case fault_here fault n of
        Some err \<Rightarrow> (Inl err, new)
      | None \<Rightarrow>
          (case lx_insert_project p new of
             Inl err \<Rightarrow> (Inl err, new)
           | Inr new1 \<Rightarrow> migrate_projects fault (Suc n) ps new1))"

text \<open>The loop over the records, with \<open>embeddingCount\<close>.\<close>

fun migrate_records ::
  "fault \<Rightarrow> nat \<Rightarrow> record_row list \<Rightarrow> nat \<Rightarrow> sv_db \<Rightarrow> lx_db
     \<Rightarrow> (error + nat) \<times> sv_db \<times> lx_db" where
  "migrate_records fault n [] embeddingCount old new = (Inr embeddingCount, old, new)"
| "migrate_records fault n (r # rs) embeddingCount old new =
     (case old_select_embedding (r_id r) old of
        (vec, old1) \<Rightarrow>
          (let embeddingCount1 = (if vec \<noteq> None then Suc embeddingCount else embeddingCount) in
           case fault_here fault n of
             Some err \<Rightarrow> (Inl err, old1, new)
           | None \<Rightarrow>
               (case lx_insert_record_with_id (migrated_row r vec) new of
                  Inl err \<Rightarrow> (Inl err, old1, new)
                | Inr new1 \<Rightarrow> migrate_records fault (Suc n) rs embeddingCount1 old1 new1)))"

text \<open>\<open>migrateFromDb(oldDb, newDb)\<close>: the counts or the error thrown, and both stores
  afterwards.\<close>

definition migrateFromDb :: "fault \<Rightarrow> sv_db \<Rightarrow> lx_db \<Rightarrow> (error + stats) \<times> sv_db \<times> lx_db" where
  "migrateFromDb fault old new =
     (case createSchema fault new of
        Inl err \<Rightarrow> (Inl err, old, new)
      | Inr new0 \<Rightarrow>
          (case old_select_projects old of
             (projects, old1) \<Rightarrow>
               (case migrate_projects fault 1 projects new0 of
                  (Inl err, new1) \<Rightarrow> (Inl err, old1, new1)
                | (Inr n, new1) \<Rightarrow>
                    (case old_select_records old1 of
                       (records, old2) \<Rightarrow>
                         (case migrate_records fault n records 0 old2 new1 of
                            (Inl err, old3, new2) \<Rightarrow> (Inl err, old3, new2)
                          | (Inr embeddingCount, old3, new2) \<Rightarrow>
                              (Inr \<lparr>st_projects = length projects,
                                    st_records = length records,
                                    st_embeddings = embeddingCount\<rparr>, old3, new2))))))"

section \<open>The backend selector\<close>

text \<open>The files of the data directory: the legacy store \<open>dude.db\<close>, the native store
  \<open>dude-libsql.db\<close> and the backup \<open>dude.db.backup\<close>; \<open>None\<close> is a file that does not
  exist.\<close>

record fs =
  fs_old :: "sv_db option"
  fs_new :: "lx_db option"
  fs_backup :: "sv_db option"

text \<open>What the surroundings decide: whether the dynamic import of the migration script
  fails (and with which message), a storage fault of the target, and whether \<open>unlink\<close> and
  \<open>rename\<close> succeed.\<close>

record env =
  env_import_error :: "string option"
  env_fault :: fault
  env_unlink_ok :: bool
  env_rename_ok :: bool

definition OLD_DB :: string where
  "OLD_DB = ''~/.dude-claude/dude.db''"

definition empty_lx_db :: lx_db where
  "empty_lx_db = \<lparr>lx_project = [], lx_record = [], lx_seq = 0\<rparr>"

text \<open>\<open>err.message\<close>.\<close>

definition error_message :: "error \<Rightarrow> string" where
  "error_message err =
     (case err of
        CheckConstraint c \<Rightarrow> ''CHECK constraint failed: '' @ c
      | ForeignKeyConstraint \<Rightarrow> ''FOREIGN KEY constraint failed''
      | UniqueConstraint c \<Rightarrow> ''UNIQUE constraint failed: '' @ c
      | StorageFault s \<Rightarrow> ''disk I/O error''
      | BackendFault msg \<Rightarrow> msg
      | NotInitialised \<Rightarrow> ''Database not initialised''
      | Error msg \<Rightarrow> msg)"

text \<open>\<open>migrate(oldDbPath, newDbUrl)\<close>: open the legacy file, create the client of the native
  file (which creates the file when it is missing), run \<open>migrateFromDb\<close>, close both. The
  selector calls it only when the legacy file exists.\<close>

definition migrate :: "fault \<Rightarrow> fs \<Rightarrow> (error + stats) \<times> fs" where
  "migrate fault files =
     (case fs_old files of
        None \<Rightarrow> (Inl (Error ''no such table: project''), files)
      | Some old \<Rightarrow>
          (case migrateFromDb fault old
                  (case fs_new files of None \<Rightarrow> empty_lx_db | Some new \<Rightarrow> new) of
             (res, old1, new1) \<Rightarrow> (res, files\<lparr>fs_old := Some old1, fs_new := Some new1\<rparr>)))"

text \<open>The guidance \<open>_autoMigrate\<close> puts before the message of a failed import, and before
  the message of a failed migration.\<close>

definition IMPORT_GUIDANCE :: string where
  "IMPORT_GUIDANCE =
     ''Database migration requires better-sqlite3 and sqlite-vec packages.'' @ [CHR 0x0A]
     @ ''       Install them with: npm install better-sqlite3 sqlite-vec'' @ [CHR 0x0A]
     @ ''       Then restart. Your old data in dude.db will be migrated.'' @ [CHR 0x0A]
     @ ''       Error: ''"

definition MIGRATION_GUIDANCE :: string where
  "MIGRATION_GUIDANCE =
     ''Database migration failed. Old database preserved at '' @ OLD_DB @ ''. Error: ''"

text \<open>\<open>_autoMigrate\<close>: what it throws, if anything, and the files afterwards.\<close>

definition autoMigrate :: "env \<Rightarrow> fs \<Rightarrow> (error + unit) \<times> fs" where
  "autoMigrate e files =
     (case env_import_error e of
        Some msg \<Rightarrow>
          (Inl (Error (IMPORT_GUIDANCE @ msg)), files)
      | None \<Rightarrow>
          (case migrate (env_fault e) files of
             (Inl err, files1) \<Rightarrow>
               (let files2 =
                      (if fs_new files1 \<noteq> None
                       then (if env_unlink_ok e then files1\<lparr>fs_new := None\<rparr> else files1)
                       else files1)
                in (Inl (Error (MIGRATION_GUIDANCE @ error_message err)), files2))
           | (Inr st, files1) \<Rightarrow>
               (if env_rename_ok e
                then (Inr (), files1\<lparr>fs_old := None, fs_backup := fs_old files1\<rparr>)
                else (Inr (), files1))))"

section \<open>Invariants of the data model\<close>




text \<open>What the schema of the legacy store guarantees: primary keys and project names are
  unique, kinds and statuses satisfy their \<open>CHECK\<close> constraints, and every record refers to
  a project of the store (the connection enforces foreign keys).\<close>

definition sv_schema_ok :: "sv_db \<Rightarrow> bool" where
  "sv_schema_ok db =
     (distinct (map p_id (sv_project db)) \<and> distinct (map p_name (sv_project db))
      \<and> distinct (map r_id (sv_record db))
      \<and> list_all (\<lambda>r. valid_kind (r_kind r) \<and> valid_status (r_status r)) (sv_record db)
      \<and> list_all (\<lambda>r. list_ex (\<lambda>p. p_id p = r_project_id r) (sv_project db))
            (sv_record db))"

section \<open>Vocabulary of the dedup property\<close>

text \<open>A record of the project and kind of a write, and a record whose stored embedding is at
  cosine distance 0 from the new embedding (libsql store).\<close>

definition own_row :: "nat \<Rightarrow> string \<Rightarrow> lrecord_row \<Rightarrow> bool" where
  "own_row proj kind r = (l_project_id r = proj \<and> l_kind r = kind)"




text \<open>The columns the dedup branch overwrites.\<close>

definition dedup_update :: "upsert_args \<Rightarrow> vec \<Rightarrow> string \<Rightarrow> lrecord_row \<Rightarrow> lrecord_row" where
  "dedup_update a e now r =
     r\<lparr>l_title := a_title a, l_body := arg_body a, l_status := arg_status a,
       l_embedding := Some e, l_updated_at := now\<rparr>"

definition r_dedup_update :: "upsert_args \<Rightarrow> string \<Rightarrow> record_row \<Rightarrow> record_row" where
  "r_dedup_update a now r =
     r\<lparr>r_title := a_title a, r_body := arg_body a, r_status := arg_status a,
       r_updated_at := now\<rparr>"





section \<open>Example stores\<close>

text \<open>Concrete stores and arguments, used to run the model.\<close>

definition ex_p1 :: project_row where
  "ex_p1 = \<lparr>p_id = 1, p_name = ''acme/app'', p_created_at = ''2025-01-01'', p_updated_at = ''2025-01-01''\<rparr>"
definition ex_p2 :: project_row where
  "ex_p2 = \<lparr>p_id = 2, p_name = ''other'', p_created_at = ''2025-01-01'', p_updated_at = ''2025-01-01''\<rparr>"

definition ex_lrow :: "nat \<Rightarrow> nat \<Rightarrow> string \<Rightarrow> vec option \<Rightarrow> string \<Rightarrow> lrecord_row" where
  "ex_lrow i p k v t =
     \<lparr>l_id = i, l_project_id = p, l_kind = k, l_title = ''title'', l_body = ''body'',
      l_status = ''open'', l_embedding = v, l_created_at = t, l_updated_at = t\<rparr>"

definition ex_row :: "nat \<Rightarrow> nat \<Rightarrow> string \<Rightarrow> string \<Rightarrow> record_row" where
  "ex_row i p k t =
     \<lparr>r_id = i, r_project_id = p, r_kind = k, r_title = ''title'', r_body = ''body'',
      r_status = ''open'', r_created_at = t, r_updated_at = t\<rparr>"

definition ex_args :: "nat option \<Rightarrow> string \<Rightarrow> string \<Rightarrow> string option \<Rightarrow> upsert_args" where
  "ex_args i k t s =
     \<lparr>a_id = i, a_projectId = None, a_kind = k, a_title = t, a_body = None, a_status = s\<rparr>"

definition ex_ldb :: lx_db where
  "ex_ldb = \<lparr>lx_project = [ex_p1, ex_p2],
     lx_record = [ex_lrow 1 1 ''issue'' (Some [1, 0]) ''2025-01-02'',
                  ex_lrow 2 2 ''spec'' None ''2025-01-03''],
     lx_seq = 2\<rparr>"

definition ex_sdb :: sv_db where
  "ex_sdb = \<lparr>sv_project = [ex_p1, ex_p2],
     sv_record = [ex_row 1 1 ''issue'' ''2025-01-02'', ex_row 2 2 ''spec'' ''2025-01-03''],
     sv_record_embedding = [(1, [1, 0])], sv_seq = 2\<rparr>"

definition ex_empty_ldb :: lx_db where
  "ex_empty_ldb = \<lparr>lx_project = [ex_p1], lx_record = [], lx_seq = 0\<rparr>"

definition ex_empty_sdb :: sv_db where
  "ex_empty_sdb = \<lparr>sv_project = [ex_p1], sv_record = [], sv_record_embedding = [], sv_seq = 0\<rparr>"

definition ex_list_filters :: list_filters where
  "ex_list_filters = \<lparr>f_kind = None, f_status = None, f_project = Some ''ghost''\<rparr>"

definition fault_at :: "stmt \<Rightarrow> stmt \<Rightarrow> bool" where
  "fault_at s t = (t = s)"


definition ex_floor_ldb :: lx_db where
  "ex_floor_ldb = \<lparr>lx_project = [ex_p1, ex_p2],
     lx_record = [ex_lrow 1 1 ''issue'' (Some [7/25, 24/25]) ''2025-01-02'',
                  ex_lrow 2 2 ''issue'' (Some [7/25, 24/25]) ''2025-01-03''],
     lx_seq = 2\<rparr>"

definition ex_floor_sdb :: sv_db where
  "ex_floor_sdb = \<lparr>sv_project = [ex_p1, ex_p2],
     sv_record = [ex_row 1 1 ''issue'' ''2025-01-02'', ex_row 2 2 ''issue'' ''2025-01-03''],
     sv_record_embedding = [(1, [7/25, 24/25]), (2, [7/25, 24/25])], sv_seq = 2\<rparr>"

definition ex_opts :: search_opts where
  "ex_opts = \<lparr>o_kind = None, o_limit = None\<rparr>"

definition ex_crowd_ldb :: lx_db where
  "ex_crowd_ldb = \<lparr>lx_project = [ex_p1],
     lx_record = [ex_lrow 1 1 ''issue'' (Some [12/13, 5/13]) ''2025-01-02'',
                  ex_lrow 2 1 ''spec'' (Some [1, 0]) ''2025-01-03'',
                  ex_lrow 3 1 ''spec'' (Some [1, 0]) ''2025-01-03'',
                  ex_lrow 4 1 ''spec'' (Some [1, 0]) ''2025-01-03'',
                  ex_lrow 5 1 ''spec'' (Some [1, 0]) ''2025-01-03'',
                  ex_lrow 6 1 ''spec'' (Some [1, 0]) ''2025-01-03''],
     lx_seq = 6\<rparr>"

definition ex_crowd_sdb :: sv_db where
  "ex_crowd_sdb = \<lparr>sv_project = [ex_p1],
     sv_record = [ex_row 1 1 ''issue'' ''2025-01-02'', ex_row 2 1 ''spec'' ''2025-01-03'',
                  ex_row 3 1 ''spec'' ''2025-01-03'', ex_row 4 1 ''spec'' ''2025-01-03'',
                  ex_row 5 1 ''spec'' ''2025-01-03'', ex_row 6 1 ''spec'' ''2025-01-03''],
     sv_record_embedding = [(1, [12/13, 5/13]), (2, [1, 0]), (3, [1, 0]), (4, [1, 0]),
                            (5, [1, 0]), (6, [1, 0])],
     sv_seq = 6\<rparr>"


definition ex_mig_old :: sv_db where
  "ex_mig_old = \<lparr>sv_project = [ex_p1],
     sv_record = [ex_row 1 1 ''issue'' ''2025-01-02'', ex_row 2 1 ''spec'' ''2025-01-03'',
                  ex_row 3 1 ''arch'' ''2025-01-04''],
     sv_record_embedding = [(1, [1, 0]), (2, [0, 1])], sv_seq = 3\<rparr>"

definition ex_blank_old :: sv_db where
  "ex_blank_old = \<lparr>sv_project = [], sv_record = [], sv_record_embedding = [], sv_seq = 0\<rparr>"

definition ex_files :: fs where
  "ex_files = \<lparr>fs_old = Some ex_mig_old, fs_new = None, fs_backup = None\<rparr>"

definition ex_env :: "bool \<Rightarrow> env" where
  "ex_env unlink_ok =
     \<lparr>env_import_error = None, env_fault = Some (2, ''disk I/O error''),
      env_unlink_ok = unlink_ok, env_rename_ok = True\<rparr>"

definition ex_args2 :: upsert_args where
  "ex_args2 = \<lparr>a_id = None, a_projectId = None, a_kind = ''issue'', a_title = ''second title'',
               a_body = Some ''second body'', a_status = Some ''resolved''\<rparr>"

section \<open>Unfolding the model\<close>

lemmas ex_defs = ex_p1_def ex_p2_def ex_lrow_def ex_row_def ex_args_def ex_ldb_def ex_sdb_def
  ex_empty_ldb_def ex_empty_sdb_def ex_list_filters_def fault_at_def
  ex_floor_ldb_def ex_floor_sdb_def ex_opts_def ex_crowd_ldb_def ex_crowd_sdb_def
  ex_mig_old_def ex_blank_old_def ex_files_def ex_env_def ex_args2_def

lemmas model_defs =
  dot_def cosine_distance_def computeSimilarity_def js_ge_def l_distance_def vector_top_k_def
  vec0_knn_def valid_kind_def valid_status_def check_constraints_def next_id_def truthy_num_def
  truthy_str_def getCurrentProject_def arg_body_def arg_status_def arg_id_def resolve_proj_def
  no_faults_def project_by_name_def project_by_id_def l_wire_def lx_select_record_def lx_get_def
  lx_update_by_id_def lx_update_dedup_def lx_insert_def lx_dedup_candidates_def lx_upsert_def
  kind_filter_def boost_def rank_results_def lx_search_rows_def l_search_row_def lx_search_def
  resolve_project_def list_where_def lx_list_rows_def lx_list_def r_wire_def sv_select_record_def
  sv_getRecord_def sv_update_by_id_def sv_update_dedup_def sv_delete_embedding_def
  sv_insert_embedding_def sv_insert_record_def sv_dedup_candidates_def sv_insert_new_def
  sv_replace_embedding_def sv_upsert_body_def transaction_def sv_upsert_def sv_search_rows_def
  r_search_row_def sv_search_def sv_list_rows_def sv_list_def listRecords_def
  old_select_projects_def old_select_records_def old_embedding_def old_select_embedding_def
  fault_here_def
  createSchema_def lx_insert_project_def lx_insert_record_with_id_def migrated_row_def
  migrateFromDb_def OLD_DB_def empty_lx_db_def error_message_def migrate_def autoMigrate_def
  IMPORT_GUIDANCE_def MIGRATION_GUIDANCE_def
  List.map_filter_simps Let_def

section \<open>Listing with an unknown project name\<close>

lemma resolve_project_unknown:
  assumes "project = Some name" "name \<noteq> []" "name \<noteq> ''current''" "name \<noteq> ''*''"
    and "project_by_name ps name = None"
  shows "resolve_project current ps project = Inr None"
  using assms by (simp add: resolve_project_def truthy_str_def)

lemma resolve_project_star: "resolve_project current ps (Some ''*'') = Inr None"
  by (simp add: resolve_project_def truthy_str_def)

text \<open>Claim C9. In \<open>list\<close>, a \<open>project\<close> filter that is a literal name of no existing project
  (and is neither empty, \<open>current\<close> nor \<open>*\<close>) drops the project restriction: the call returns
  what the filter \<open>*\<close> returns, the records of all projects. This holds for both adapters and
  for \<open>listRecords\<close>.\<close>

theorem list_unknown_project_drops_restriction:
  assumes "f_project f = Some name" "name \<noteq> []" "name \<noteq> ''current''" "name \<noteq> ''*''"
    and "project_by_name (lx_project ldb) name = None"
    and "project_by_name (sv_project sdb) name = None"
  shows "lx_list cur f ldb = Inr (list_where None (f_kind f) (f_status f) (lx_list_rows ldb))
       \<and> lx_list cur f ldb = lx_list cur (f\<lparr>f_project := Some ''*''\<rparr>) ldb
       \<and> sv_list cur f sdb = Inr (list_where None (f_kind f) (f_status f) (sv_list_rows sdb))
       \<and> sv_list cur f sdb = sv_list cur (f\<lparr>f_project := Some ''*''\<rparr>) sdb
       \<and> listRecords cur f sdb = Inr (list_where None (f_kind f) (f_status f) (sv_list_rows sdb))
       \<and> listRecords cur f sdb = listRecords cur (f\<lparr>f_project := Some ''*''\<rparr>) sdb"
  using assms
  by (simp add: lx_list_def sv_list_def listRecords_def resolve_project_unknown resolve_project_star)

text \<open>The filter \<open>ghost\<close> on a store with two projects returns the records of both.\<close>

theorem list_unknown_project_witness:
  "map_sum id (map (\<lambda>r. (li_id r, li_project r))) (lx_list (Some ex_p1) ex_list_filters ex_ldb)
     = Inr [(2, ''other''), (1, ''acme/app'')]
   \<and> map_sum id (map (\<lambda>r. (li_id r, li_project r))) (sv_list (Some ex_p1) ex_list_filters ex_sdb)
     = Inr [(2, ''other''), (1, ''acme/app'')]
   \<and> map_sum id (map (\<lambda>r. (li_id r, li_project r))) (listRecords (Some ex_p1) ex_list_filters ex_sdb)
     = Inr [(2, ''other''), (1, ''acme/app'')]"
  using list_unknown_project_drops_restriction
          [of ex_list_filters "''ghost''" ex_ldb ex_sdb "Some ex_p1"]
  by (simp add: ex_defs project_by_name_def lx_list_rows_def sv_list_rows_def list_where_def
        List.map_filter_simps project_by_id_def truthy_num_def truthy_str_def)

section \<open>Upsert with an explicit identifier that matches no record\<close>

lemma find_None_list_ex: "\<not> list_ex P xs \<Longrightarrow> find P xs = None"
  by (simp add: find_None_iff list_ex_iff)

text \<open>Claim C10, amended. Calling \<open>upsert\<close> with an explicit non-zero id that matches no
  existing record returns \<open>null\<close> and leaves the tables \<open>project\<close> and \<open>record\<close> as they were;
  on the sqlite-vec backend the embedding row keyed to that id is nevertheless (re)inserted
  into the side table.\<close>

theorem upsert_unknown_explicit_id:
  assumes "a_id a = Some i" "i \<noteq> 0"
    and "resolve_proj cur a = Inr proj"
    and "\<not> list_ex (\<lambda>r. l_id r = i) (lx_record ldb)"
    and "\<not> list_ex (\<lambda>r. r_id r = i) (sv_record sdb)"
  shows "lx_upsert no_faults cur a e now ldb = (Inr None, ldb)
       \<and> sv_upsert no_faults cur a e now sdb =
           (Inr None,
            sdb\<lparr>sv_record_embedding :=
                  filter (\<lambda>(k, v). k \<noteq> i) (sv_record_embedding sdb) @ [(i, e)]\<rparr>)"
  using assms
  by (simp add: lx_upsert_def sv_upsert_def sv_upsert_body_def transaction_def truthy_num_def
        arg_id_def lx_update_by_id_def sv_update_by_id_def no_faults_def lx_get_def
        lx_select_record_def sv_replace_embedding_def sv_delete_embedding_def
        sv_insert_embedding_def sv_getRecord_def sv_select_record_def find_None_list_ex
        list_ex_iff)

theorem upsert_unknown_explicit_id_witness:
  "lx_upsert no_faults (Some ex_p1) (ex_args (Some 7) ''issue'' ''t'' None) [0, 1] ''2025-02-01'' ex_ldb
     = (Inr None, ex_ldb)
   \<and> sv_upsert no_faults (Some ex_p1) (ex_args (Some 7) ''issue'' ''t'' None) [0, 1] ''2025-02-01'' ex_sdb
     = (Inr None, ex_sdb\<lparr>sv_record_embedding := [(1, [1, 0]), (7, [0, 1])]\<rparr>)"
  using upsert_unknown_explicit_id
          [of "ex_args (Some 7) ''issue'' ''t'' None" 7 "Some ex_p1" 1 ex_ldb ex_sdb "[0, 1]" "''2025-02-01''"]
  by (simp add: ex_defs resolve_proj_def getCurrentProject_def)

text \<open>Claim C10 as stated fails for the id 0: it matches no record, but \<open>if (id)\<close> is false
  for it, so the call takes the dedup branch, inserts a record and returns it.\<close>

theorem upsert_explicit_id_zero_inserts:
  "fst (lx_upsert no_faults (Some ex_p1) (ex_args (Some 0) ''issue'' ''t'' None) [0, 1] ''2025-02-01'' ex_empty_ldb)
     = Inr (Some \<lparr>w_id = 1, w_project_id = 1, w_kind = ''issue'', w_title = ''t'', w_body = [],
                  w_status = ''open'', w_created_at = ''2025-02-01'', w_updated_at = ''2025-02-01'',
                  w_project = ''acme/app''\<rparr>)
   \<and> map l_id (lx_record (snd (lx_upsert no_faults (Some ex_p1) (ex_args (Some 0) ''issue'' ''t'' None) [0, 1] ''2025-02-01'' ex_empty_ldb))) = [1]
   \<and> fst (sv_upsert no_faults (Some ex_p1) (ex_args (Some 0) ''issue'' ''t'' None) [0, 1] ''2025-02-01'' ex_empty_sdb)
     = Inr (Some \<lparr>w_id = 1, w_project_id = 1, w_kind = ''issue'', w_title = ''t'', w_body = [],
                  w_status = ''open'', w_created_at = ''2025-02-01'', w_updated_at = ''2025-02-01'',
                  w_project = ''acme/app''\<rparr>)
   \<and> map r_id (sv_record (snd (sv_upsert no_faults (Some ex_p1) (ex_args (Some 0) ''issue'' ''t'' None) [0, 1] ''2025-02-01'' ex_empty_sdb))) = [1]"
  by (simp add: ex_defs model_defs)

section \<open>Rejection of invalid kinds and statuses\<close>

lemma set_vector_top_k: "set (vector_top_k q k rows) \<subseteq> set rows"
proof -
  have "set (vector_top_k q k rows)
          \<subseteq> set (sort_key (l_distance q) (filter (\<lambda>r. l_embedding r \<noteq> None) rows))"
    unfolding vector_top_k_def by (rule set_take_subset)
  then show ?thesis by auto
qed

lemma lx_dedup_candidates_sound:
  assumes "lx_dedup_candidates faults e proj kind db = Inr cs" and "r \<in> set cs"
  shows "r \<in> set (lx_record db) \<and> l_project_id r = proj \<and> l_kind r = kind"
  using assms set_vector_top_k [of e 5 "lx_record db"]
  by (auto simp add: lx_dedup_candidates_def split: if_splits)

lemma sv_dedup_candidates_sound:
  assumes "sv_dedup_candidates faults e proj kind db = Inr ((i, d) # rest)"
  shows "\<exists>r \<in> set (sv_record db). r_id r = i \<and> r_project_id r = proj \<and> r_kind r = kind"
proof -
  let ?P = "\<lambda>(i, d). list_ex (\<lambda>r. r_id r = i \<and> r_project_id r = proj \<and> r_kind r = kind)
                        (sv_record db)"
  let ?xs = "sort_key snd (filter ?P (vec0_knn e 5 (sv_record_embedding db)))"
  from assms have eq: "take 1 ?xs = (i, d) # rest"
    by (simp add: sv_dedup_candidates_def split: if_splits)
  have "(i, d) \<in> set (take 1 ?xs)" by (simp only: eq list.set_intros)
  then have "(i, d) \<in> set ?xs" by (rule in_set_takeD)
  then have "?P (i, d)" by simp
  then show ?thesis by (simp add: list_ex_iff)
qed

lemma lx_upsert_rejects:
  assumes bad: "\<not> valid_kind (a_kind a) \<or> \<not> valid_status (arg_status a)"
    and proj: "resolve_proj cur a = Inr proj"
    and idex: "truthy_num (a_id a) \<longrightarrow> list_ex (\<lambda>r. l_id r = arg_id a) (lx_record ldb)"
    and inv: "\<forall>r \<in> set (lx_record ldb). valid_kind (l_kind r)"
  shows "\<exists>c. lx_upsert no_faults cur a e now ldb = (Inl (CheckConstraint c), ldb)"
proof (cases "truthy_num (a_id a)")
  case True
  with bad proj idex show ?thesis
    by (auto simp add: lx_upsert_def lx_update_by_id_def no_faults_def check_constraints_def)
next
  case False
  obtain cs where cs: "lx_dedup_candidates no_faults e proj (a_kind a) ldb = Inr cs"
    by (simp add: lx_dedup_candidates_def no_faults_def)
  show ?thesis
  proof (cases "find (\<lambda>row. js_ge (computeSimilarity e (l_embedding row)) 0.85) cs")
    case None
    with bad proj False cs show ?thesis
      by (auto simp add: lx_upsert_def lx_insert_def no_faults_def check_constraints_def)
  next
    case (Some row)
    then have "row \<in> set cs" by (auto simp add: find_Some_iff)
    with cs have row: "row \<in> set (lx_record ldb)" "l_kind row = a_kind a"
      using lx_dedup_candidates_sound by blast+
    with inv have "valid_kind (a_kind a)" by auto
    with bad have "\<not> valid_status (arg_status a)" by simp
    moreover from row have "list_ex (\<lambda>r. l_id r = l_id row) (lx_record ldb)"
      by (auto simp add: list_ex_iff)
    ultimately show ?thesis using proj False cs Some
      by (simp add: lx_upsert_def lx_update_dedup_def no_faults_def)
  qed
qed

lemma sv_insert_new_rejects:
  assumes "\<not> valid_kind (a_kind a) \<or> \<not> valid_status (arg_status a)"
  shows "\<exists>c. sv_insert_new no_faults proj a e now db = (Inl (CheckConstraint c), db)"
  using assms
  by (auto simp add: sv_insert_new_def sv_insert_record_def no_faults_def check_constraints_def)

lemma sv_upsert_rejects:
  assumes bad: "\<not> valid_kind (a_kind a) \<or> \<not> valid_status (arg_status a)"
    and proj: "resolve_proj cur a = Inr proj"
    and idex: "truthy_num (a_id a) \<longrightarrow> list_ex (\<lambda>r. r_id r = arg_id a) (sv_record sdb)"
    and inv: "\<forall>r \<in> set (sv_record sdb). valid_kind (r_kind r)"
  shows "\<exists>c. sv_upsert no_faults cur a e now sdb = (Inl (CheckConstraint c), sdb)"
proof -
  have "\<exists>c. sv_upsert_body no_faults proj a e now sdb = (Inl (CheckConstraint c), sdb)"
  proof (cases "truthy_num (a_id a)")
    case True
    with bad idex show ?thesis
      by (auto simp add: sv_upsert_body_def sv_update_by_id_def no_faults_def
            check_constraints_def)
  next
    case False
    obtain cs where cs: "sv_dedup_candidates no_faults e proj (a_kind a) sdb = Inr cs"
      by (simp add: sv_dedup_candidates_def no_faults_def)
    show ?thesis
    proof (cases cs)
      case Nil
      with False cs sv_insert_new_rejects [OF bad] show ?thesis
        by (simp add: sv_upsert_body_def)
    next
      case (Cons c rest)
      obtain i d where c: "c = (i, d)" by (cases c)
      show ?thesis
      proof (cases "d \<le> 0.15")
        case far: False
        with False cs Cons c sv_insert_new_rejects [OF bad] show ?thesis
          by (simp add: sv_upsert_body_def)
      next
        case near: True
        from cs Cons c obtain r where r: "r \<in> set (sv_record sdb)" "r_id r = i" "r_kind r = a_kind a"
          using sv_dedup_candidates_sound by blast
        with inv have "valid_kind (a_kind a)" by auto
        with bad have "\<not> valid_status (arg_status a)" by simp
        moreover from r have "list_ex (\<lambda>r. r_id r = i) (sv_record sdb)"
          by (auto simp add: list_ex_iff)
        ultimately show ?thesis using False cs Cons c near
          by (simp add: sv_upsert_body_def sv_update_dedup_def no_faults_def)
      qed
    qed
  qed
  then show ?thesis using proj by (auto simp add: sv_upsert_def transaction_def)
qed

text \<open>Claim C4, amended. On a store whose records satisfy the \<open>CHECK\<close> constraint on \<open>kind\<close>,
  \<open>upsert\<close> without an explicit id, or with the id of an existing record, fails with a
  \<open>CHECK\<close> constraint error whenever the kind is not one of issue, spec, arch, update or the
  status is not one of open, resolved, archived; the store is then exactly as before the
  call. Nothing is promised about titles.\<close>

theorem upsert_rejects_invalid_kind_or_status:
  assumes "\<not> valid_kind (a_kind a) \<or> \<not> valid_status (arg_status a)"
    and "resolve_proj cur a = Inr proj"
    and "truthy_num (a_id a) \<longrightarrow> list_ex (\<lambda>r. l_id r = arg_id a) (lx_record ldb)"
    and "truthy_num (a_id a) \<longrightarrow> list_ex (\<lambda>r. r_id r = arg_id a) (sv_record sdb)"
    and "\<forall>r \<in> set (lx_record ldb). valid_kind (l_kind r)"
    and "\<forall>r \<in> set (sv_record sdb). valid_kind (r_kind r)"
  shows "(\<exists>c. lx_upsert no_faults cur a e now ldb = (Inl (CheckConstraint c), ldb))
       \<and> (\<exists>c. sv_upsert no_faults cur a e now sdb = (Inl (CheckConstraint c), sdb))"
  using assms lx_upsert_rejects sv_upsert_rejects by blast

text \<open>An unknown kind on the libsql adapter, an unknown status on the legacy adapter.\<close>

theorem upsert_rejects_invalid_witness:
  "lx_upsert no_faults (Some ex_p1) (ex_args None ''bug'' ''t'' None) [1, 0] ''2025-02-01'' ex_ldb
     = (Inl (CheckConstraint ''kind''), ex_ldb)
   \<and> sv_upsert no_faults (Some ex_p1) (ex_args None ''issue'' ''t'' (Some ''done'')) [1, 0] ''2025-02-01'' ex_sdb
     = (Inl (CheckConstraint ''status''), ex_sdb)"
proof -
  have k: "\<exists>c. lx_upsert no_faults (Some ex_p1) (ex_args None ''bug'' ''t'' None) [1, 0] ''2025-02-01'' ex_ldb
             = (Inl (CheckConstraint c), ex_ldb)"
    using upsert_rejects_invalid_kind_or_status
      [of "ex_args None ''bug'' ''t'' None" "Some ex_p1" 1 ex_ldb ex_sdb "[1, 0]" "''2025-02-01''"]
    by (simp add: ex_defs valid_kind_def resolve_proj_def getCurrentProject_def truthy_num_def)
  have s: "\<exists>c. sv_upsert no_faults (Some ex_p1) (ex_args None ''issue'' ''t'' (Some ''done'')) [1, 0] ''2025-02-01'' ex_sdb
             = (Inl (CheckConstraint c), ex_sdb)"
    using upsert_rejects_invalid_kind_or_status
      [of "ex_args None ''issue'' ''t'' (Some ''done'')" "Some ex_p1" 1 ex_ldb ex_sdb "[1, 0]" "''2025-02-01''"]
    by (simp add: ex_defs valid_kind_def valid_status_def arg_status_def resolve_proj_def
          getCurrentProject_def truthy_num_def)
  show ?thesis using k s by (simp add: ex_defs model_defs)
qed

text \<open>Claim C4 as stated fails: the column \<open>title\<close> is only \<open>NOT NULL\<close>, so an upsert with the
  empty title succeeds on both adapters and writes a row; and an upsert with an unknown kind
  and an explicit id that matches no record updates no row, checks no constraint and returns
  \<open>null\<close>.\<close>

theorem upsert_accepts_empty_title:
  "fst (lx_upsert no_faults (Some ex_p1) (ex_args None ''issue'' [] None) [0, 1] ''2025-02-01'' ex_empty_ldb)
     = Inr (Some \<lparr>w_id = 1, w_project_id = 1, w_kind = ''issue'', w_title = [], w_body = [],
                  w_status = ''open'', w_created_at = ''2025-02-01'', w_updated_at = ''2025-02-01'',
                  w_project = ''acme/app''\<rparr>)
   \<and> map l_title (lx_record (snd (lx_upsert no_faults (Some ex_p1) (ex_args None ''issue'' [] None) [0, 1] ''2025-02-01'' ex_empty_ldb))) = [[]]
   \<and> fst (sv_upsert no_faults (Some ex_p1) (ex_args None ''issue'' [] None) [0, 1] ''2025-02-01'' ex_empty_sdb)
     = Inr (Some \<lparr>w_id = 1, w_project_id = 1, w_kind = ''issue'', w_title = [], w_body = [],
                  w_status = ''open'', w_created_at = ''2025-02-01'', w_updated_at = ''2025-02-01'',
                  w_project = ''acme/app''\<rparr>)
   \<and> map r_title (sv_record (snd (sv_upsert no_faults (Some ex_p1) (ex_args None ''issue'' [] None) [0, 1] ''2025-02-01'' ex_empty_sdb))) = [[]]
   \<and> fst (lx_upsert no_faults (Some ex_p1) (ex_args (Some 7) ''bug'' ''t'' None) [0, 1] ''2025-02-01'' ex_ldb) = Inr None
   \<and> fst (sv_upsert no_faults (Some ex_p1) (ex_args (Some 7) ''bug'' ''t'' None) [0, 1] ''2025-02-01'' ex_sdb) = Inr None"
  by (simp add: ex_defs model_defs)

section \<open>A failed upsert leaves the store unchanged\<close>

lemma lx_get_error: "lx_get faults db i = Inl err \<Longrightarrow> err = StorageFault SelectRecord"
  by (simp add: lx_get_def split: if_splits)

lemma lx_upsert_atomic:
  assumes "fst (lx_upsert faults cur a e now ldb) = Inl err" and "err \<noteq> StorageFault SelectRecord"
  shows "snd (lx_upsert faults cur a e now ldb) = ldb"
  using assms
  by (auto simp add: lx_upsert_def split: sum.splits if_splits option.splits prod.splits
        dest: lx_get_error)

lemma transaction_rollback:
  "fst (transaction fn db) = Inl err \<Longrightarrow> snd (transaction fn db) = db"
  by (auto simp add: transaction_def split: prod.splits sum.splits)

lemma sv_upsert_atomic:
  assumes "fst (sv_upsert faults cur a e now sdb) = Inl err"
  shows "snd (sv_upsert faults cur a e now sdb) = sdb"
  using assms
  by (auto simp add: sv_upsert_def split: sum.splits dest: transaction_rollback)

text \<open>Claim C5. If an upsert fails in its dedup lookup, its update of an existing record, its
  embedding replacement or its insert, the store is left as it was before the call. The
  libsql adapter issues a single writing statement on each path, so every failure before the
  final read-back (\<open>SelectRecord\<close>) finds the store untouched; the legacy adapter runs the
  whole body in a transaction, so every failure rolls back.\<close>

theorem upsert_failure_leaves_store_unchanged:
  "(fst (lx_upsert faults cur a e now ldb) = Inl err \<and> err \<noteq> StorageFault SelectRecord
      \<longrightarrow> snd (lx_upsert faults cur a e now ldb) = ldb)
   \<and> (fst (sv_upsert faults' cur a e now sdb) = Inl err'
      \<longrightarrow> snd (sv_upsert faults' cur a e now sdb) = sdb)"
  using lx_upsert_atomic sv_upsert_atomic by blast

text \<open>A fault in the insert on the libsql adapter; on the legacy adapter a fault in the
  embedding insert, after the record row was written inside the transaction.\<close>

theorem upsert_failure_witness:
  "fst (lx_upsert (fault_at InsertRecord) (Some ex_p1) (ex_args None ''issue'' ''t'' None) [0, 1] ''2025-02-01'' ex_ldb)
     = Inl (StorageFault InsertRecord)
   \<and> snd (lx_upsert (fault_at InsertRecord) (Some ex_p1) (ex_args None ''issue'' ''t'' None) [0, 1] ''2025-02-01'' ex_ldb)
     = ex_ldb
   \<and> fst (sv_upsert (fault_at InsertEmbedding) (Some ex_p1) (ex_args None ''issue'' ''t'' None) [0, 1] ''2025-02-01'' ex_sdb)
     = Inl (StorageFault InsertEmbedding)
   \<and> map r_id (sv_record (snd (sv_upsert_body (fault_at InsertEmbedding) 1 (ex_args None ''issue'' ''t'' None) [0, 1] ''2025-02-01'' ex_sdb)))
     = [1, 2, 3]
   \<and> snd (sv_upsert (fault_at InsertEmbedding) (Some ex_p1) (ex_args None ''issue'' ''t'' None) [0, 1] ''2025-02-01'' ex_sdb)
     = ex_sdb"
proof -
  have l: "fst (lx_upsert (fault_at InsertRecord) (Some ex_p1) (ex_args None ''issue'' ''t'' None) [0, 1] ''2025-02-01'' ex_ldb)
     = Inl (StorageFault InsertRecord)"
    by (simp add: ex_defs model_defs)
  have s: "fst (sv_upsert (fault_at InsertEmbedding) (Some ex_p1) (ex_args None ''issue'' ''t'' None) [0, 1] ''2025-02-01'' ex_sdb)
     = Inl (StorageFault InsertEmbedding)"
    by (simp add: ex_defs model_defs)
  have b: "map r_id (sv_record (snd (sv_upsert_body (fault_at InsertEmbedding) 1 (ex_args None ''issue'' ''t'' None) [0, 1] ''2025-02-01'' ex_sdb)))
     = [1, 2, 3]"
    by (simp add: ex_defs model_defs)
  show ?thesis
    using l s b
      upsert_failure_leaves_store_unchanged
        [of "fault_at InsertRecord" "Some ex_p1" "ex_args None ''issue'' ''t'' None" "[0, 1]"
            "''2025-02-01''" ex_ldb "StorageFault InsertRecord" "fault_at InsertEmbedding" ex_sdb
            "StorageFault InsertEmbedding"]
    by simp
qed


section \<open>Semantic search\<close>

lemma dot_Nil [simp]: "dot [] b = 0" "dot a [] = 0"
  by (simp_all add: dot_def)

lemma dot_Cons [simp]: "dot (x # xs) (y # ys) = x * y + dot xs ys"
  by (simp add: dot_def)






lemma in_set_map_filter: "y \<in> set (List.map_filter f xs) \<longleftrightarrow> (\<exists>x \<in> set xs. f x = Some y)"
  by (induction xs) (auto split: option.splits)

lemma rank_results_sound:
  assumes "h \<in> set (rank_results limit rows)"
  shows "h \<in> set rows \<and> 0.3 \<le> similarity h"
proof -
  from assms have "h \<in> set (sort_key (\<lambda>r. - similarity r) (filter (\<lambda>r. 0.3 \<le> similarity r) rows))"
    unfolding rank_results_def by (rule in_set_takeD)
  then show ?thesis by simp
qed

lemma vector_top_k_sound:
  assumes "r \<in> set (vector_top_k q k rows)"
  shows "r \<in> set rows \<and> l_embedding r \<noteq> None"
proof -
  from assms have "r \<in> set (sort_key (l_distance q) (filter (\<lambda>r. l_embedding r \<noteq> None) rows))"
    unfolding vector_top_k_def by (rule in_set_takeD)
  then show ?thesis by simp
qed

lemma vec0_knn_sound:
  assumes "(i, d) \<in> set (vec0_knn q k rows)"
  shows "\<exists>v. (i, v) \<in> set rows \<and> d = cosine_distance q v"
proof -
  from assms have "(i, d) \<in> set (sort_key snd (map (\<lambda>(i, v). (i, cosine_distance q v)) rows))"
    unfolding vec0_knn_def by (rule in_set_takeD)
  then show ?thesis by auto
qed

lemma lx_search_hit:
  assumes "lx_search (Some curProject) q opts db = Inr hits" and "h \<in> set hits"
  shows "\<exists>r p raw. r \<in> set (lx_record db)
           \<and> project_by_id (lx_project db) (l_project_id r) = Some p
           \<and> computeSimilarity q (l_embedding r) = Some raw
           \<and> l_embedding r \<noteq> None
           \<and> h = l_search_row r p (boost (p_name curProject) (p_name p) raw)
           \<and> 0.3 \<le> similarity h"
proof -
  define limit where "limit = (case o_limit opts of None \<Rightarrow> 5 | Some n \<Rightarrow> n)"
  define rows where "rows = List.map_filter
       (\<lambda>(r, p). map_option
           (\<lambda>sim. l_search_row r p (boost (p_name curProject) (p_name p) sim))
           (computeSimilarity q (l_embedding r)))
       (lx_search_rows q (o_kind opts) (limit * 3) db)"
  from assms(1) have "hits = rank_results limit rows"
    by (simp add: lx_search_def getCurrentProject_def limit_def rows_def Let_def)
  with assms(2) have h: "h \<in> set rows" "0.3 \<le> similarity h"
    using rank_results_sound by blast+
  from h(1) obtain r p raw where
      rp: "(r, p) \<in> set (lx_search_rows q (o_kind opts) (limit * 3) db)"
      and raw: "computeSimilarity q (l_embedding r) = Some raw"
      and hh: "h = l_search_row r p (boost (p_name curProject) (p_name p) raw)"
    by (auto simp add: rows_def in_set_map_filter)
  from rp have "r \<in> set (vector_top_k q (limit * 3) (lx_record db))"
      and p: "project_by_id (lx_project db) (l_project_id r) = Some p"
    by (auto simp add: lx_search_rows_def in_set_map_filter)
  then have "r \<in> set (lx_record db)" "l_embedding r \<noteq> None"
    using vector_top_k_sound by blast+
  with p raw hh h(2) show ?thesis by blast
qed

lemma sv_search_hit:
  assumes "sv_search (Some curProject) q opts db = Inr hits" and "h \<in> set hits"
  shows "\<exists>r p v. r \<in> set (sv_record db)
           \<and> project_by_id (sv_project db) (r_project_id r) = Some p
           \<and> (r_id r, v) \<in> set (sv_record_embedding db)
           \<and> h = r_search_row r p (boost (p_name curProject) (p_name p) (1 - cosine_distance q v))
           \<and> 0.3 \<le> similarity h"
proof -
  define limit where "limit = (case o_limit opts of None \<Rightarrow> 5 | Some n \<Rightarrow> n)"
  define rows where "rows = map
       (\<lambda>(r, p, distance).
          r_search_row r p (boost (p_name curProject) (p_name p) (1 - distance)))
       (sv_search_rows q (o_kind opts) (limit * 3) db)"
  from assms(1) have "hits = rank_results limit rows"
    by (simp add: sv_search_def getCurrentProject_def limit_def rows_def Let_def)
  with assms(2) have h: "h \<in> set rows" "0.3 \<le> similarity h"
    using rank_results_sound by blast+
  from h(1) obtain r p d where
      rpd: "(r, p, d) \<in> set (sv_search_rows q (o_kind opts) (limit * 3) db)"
      and hh: "h = r_search_row r p (boost (p_name curProject) (p_name p) (1 - d))"
    unfolding rows_def by auto
  from rpd obtain i where
      knn: "(i, d) \<in> set (vec0_knn q (limit * 3) (sv_record_embedding db))"
      and f: "find (\<lambda>r. r_id r = i) (sv_record db) = Some r"
      and p: "project_by_id (sv_project db) (r_project_id r) = Some p"
    unfolding sv_search_rows_def by (auto simp add: in_set_map_filter split: option.splits)
  from f have r: "r \<in> set (sv_record db)" "r_id r = i"
    by (auto simp add: find_Some_iff)
  from knn obtain v where "(i, v) \<in> set (sv_record_embedding db)" "d = cosine_distance q v"
    using vec0_knn_sound by blast
  with r p hh h(2) show ?thesis by blast
qed

lemma boost_floor:
  assumes "0.3 \<le> boost cn pn raw"
  shows "if pn = cn then 0.2 \<le> raw else 0.3 \<le> raw"
  using assms by (auto simp add: boost_def min_def split: if_splits)


text \<open>Claim C2, amended. The relevance floor is applied to the boosted similarity: every
  returned record has a boosted similarity of at least 0.3, so its raw similarity to the
  query is at least 0.3 when it belongs to another project and at least 0.2 when it belongs
  to the current project.\<close>

theorem search_floor_on_boosted_similarity:
  assumes "lx_search (Some curProject) q opts ldb = Inr lhits"
    and "sv_search (Some curProject) q opts sdb = Inr shits"
  shows "(\<forall>h \<in> set lhits. 0.3 \<le> similarity h \<and>
            (\<exists>r \<in> set (lx_record ldb). \<exists>raw.
                l_id r = s_id h \<and> computeSimilarity q (l_embedding r) = Some raw
              \<and> similarity h = boost (p_name curProject) (s_project h) raw
              \<and> (if s_project h = p_name curProject then 0.2 \<le> raw else 0.3 \<le> raw)))
       \<and> (\<forall>h \<in> set shits. 0.3 \<le> similarity h \<and>
            (\<exists>(i, v) \<in> set (sv_record_embedding sdb).
                i = s_id h
              \<and> similarity h = boost (p_name curProject) (s_project h) (1 - cosine_distance q v)
              \<and> (if s_project h = p_name curProject then 0.2 \<le> 1 - cosine_distance q v
                  else 0.3 \<le> 1 - cosine_distance q v)))"
proof (intro conjI ballI)
  fix h assume "h \<in> set lhits"
  with assms(1) obtain r p raw where
      r: "r \<in> set (lx_record ldb)" "computeSimilarity q (l_embedding r) = Some raw"
      and h: "h = l_search_row r p (boost (p_name curProject) (p_name p) raw)"
      and s: "0.3 \<le> similarity h"
    using lx_search_hit by blast
  from h s have "0.3 \<le> boost (p_name curProject) (p_name p) raw"
    by (simp add: l_search_row_def)
  then have "if p_name p = p_name curProject then 0.2 \<le> raw else 0.3 \<le> raw"
    by (rule boost_floor)
  with r h show "\<exists>r \<in> set (lx_record ldb). \<exists>raw.
                l_id r = s_id h \<and> computeSimilarity q (l_embedding r) = Some raw
              \<and> similarity h = boost (p_name curProject) (s_project h) raw
              \<and> (if s_project h = p_name curProject then 0.2 \<le> raw else 0.3 \<le> raw)"
    by (intro bexI [of _ r] exI [of _ raw]) (simp_all add: l_search_row_def)
  from s show "0.3 \<le> similarity h" .
next
  fix h assume "h \<in> set shits"
  with assms(2) obtain r p v where
      v: "(r_id r, v) \<in> set (sv_record_embedding sdb)"
      and h: "h = r_search_row r p (boost (p_name curProject) (p_name p) (1 - cosine_distance q v))"
      and s: "0.3 \<le> similarity h"
    using sv_search_hit by blast
  from h s have "0.3 \<le> boost (p_name curProject) (p_name p) (1 - cosine_distance q v)"
    by (simp add: r_search_row_def)
  then have "if p_name p = p_name curProject then 0.2 \<le> 1 - cosine_distance q v
             else 0.3 \<le> 1 - cosine_distance q v"
    by (rule boost_floor)
  with v h show "\<exists>(i, v) \<in> set (sv_record_embedding sdb).
                i = s_id h
              \<and> similarity h = boost (p_name curProject) (s_project h) (1 - cosine_distance q v)
              \<and> (if s_project h = p_name curProject then 0.2 \<le> 1 - cosine_distance q v
                  else 0.3 \<le> 1 - cosine_distance q v)"
    by (intro bexI [of _ "(r_id r, v)"]) (simp_all add: r_search_row_def)
  from s show "0.3 \<le> similarity h" .
qed

text \<open>A search that returns a record of the current project with raw similarity 0.28.\<close>

theorem search_floor_witness:
  "map (\<lambda>h. (s_id h, similarity h)) (projr (lx_search (Some ex_p1) [1, 0] ex_opts ex_floor_ldb))
     = [(1, 19/50)]
   \<and> 0.3 \<le> similarity (hd (projr (lx_search (Some ex_p1) [1, 0] ex_opts ex_floor_ldb)))
   \<and> map (\<lambda>h. (s_id h, similarity h)) (projr (sv_search (Some ex_p1) [1, 0] ex_opts ex_floor_sdb))
     = [(1, 19/50)]
   \<and> 0.3 \<le> similarity (hd (projr (sv_search (Some ex_p1) [1, 0] ex_opts ex_floor_sdb)))"
proof -
  let ?lhits = "projr (lx_search (Some ex_p1) [1, 0] ex_opts ex_floor_ldb)"
  let ?shits = "projr (sv_search (Some ex_p1) [1, 0] ex_opts ex_floor_sdb)"
  have l: "lx_search (Some ex_p1) [1, 0] ex_opts ex_floor_ldb = Inr ?lhits"
    by (simp add: ex_defs model_defs)
  have s: "sv_search (Some ex_p1) [1, 0] ex_opts ex_floor_sdb = Inr ?shits"
    by (simp add: ex_defs model_defs)
  have l': "map (\<lambda>h. (s_id h, similarity h)) ?lhits = [(1, 19/50)]"
    by (simp add: ex_defs model_defs)
  have s': "map (\<lambda>h. (s_id h, similarity h)) ?shits = [(1, 19/50)]"
    by (simp add: ex_defs model_defs)
  from l' have "?lhits \<noteq> []" by auto
  then have lh: "hd ?lhits \<in> set ?lhits" by (rule hd_in_set)
  from s' have "?shits \<noteq> []" by auto
  then have sh: "hd ?shits \<in> set ?shits" by (rule hd_in_set)
  from search_floor_on_boosted_similarity [OF l s] lh sh
  have "0.3 \<le> similarity (hd ?lhits)" "0.3 \<le> similarity (hd ?shits)"
    by blast+
  with l' s' show ?thesis by blast
qed

text \<open>Claim C2 as stated fails: a record of the current project whose raw similarity to
  the query is 0.28 is boosted to 0.38 and returned, on both adapters; the same record under
  another project is dropped.\<close>

theorem search_floor_applies_after_boost:
  "computeSimilarity [1, 0] (Some [7/25, 24/25]) = Some (7/25)
   \<and> 1 - cosine_distance [1, 0] [7/25, 24/25] = 7/25
   \<and> (7/25 :: real) < 0.3
   \<and> map_sum id (map (\<lambda>h. (s_id h, s_project h, similarity h)))
        (lx_search (Some ex_p1) [1, 0] ex_opts ex_floor_ldb) = Inr [(1, ''acme/app'', 19/50)]
   \<and> map_sum id (map (\<lambda>h. (s_id h, s_project h, similarity h)))
        (sv_search (Some ex_p1) [1, 0] ex_opts ex_floor_sdb) = Inr [(1, ''acme/app'', 19/50)]"
  by (simp add: ex_defs model_defs)





section \<open>Dedup candidates\<close>

text \<open>Claim C3 at a failing input. The store holds one issue of project 1 whose similarity to
  the new embedding is 12/13 (distance 1/13), and five specs of the same project with exactly
  the new embedding. The five nearest neighbours are the specs; the \<open>WHERE\<close> clause then drops
  all of them, no candidate is left, and both adapters insert record 7 next to the issue it
  duplicates.\<close>

theorem dedup_misses_match_outside_top5:
  "js_ge (computeSimilarity [1, 0] (Some [12/13, 5/13])) 0.85
   \<and> cosine_distance [1, 0] [12/13, 5/13] \<le> 0.15
   \<and> map_sum id (map_option w_id)
        (fst (lx_upsert no_faults (Some ex_p1) (ex_args None ''issue'' ''t'' None) [1, 0] ''2025-02-01'' ex_crowd_ldb))
      = Inr (Some 7)
   \<and> map (\<lambda>r. (l_id r, l_kind r))
        (lx_record (snd (lx_upsert no_faults (Some ex_p1) (ex_args None ''issue'' ''t'' None) [1, 0] ''2025-02-01'' ex_crowd_ldb)))
      = [(1, ''issue''), (2, ''spec''), (3, ''spec''), (4, ''spec''), (5, ''spec''), (6, ''spec''), (7, ''issue'')]
   \<and> map_sum id (map_option w_id)
        (fst (sv_upsert no_faults (Some ex_p1) (ex_args None ''issue'' ''t'' None) [1, 0] ''2025-02-01'' ex_crowd_sdb))
      = Inr (Some 7)
   \<and> map (\<lambda>r. (r_id r, r_kind r))
        (sv_record (snd (sv_upsert no_faults (Some ex_p1) (ex_args None ''issue'' ''t'' None) [1, 0] ''2025-02-01'' ex_crowd_sdb)))
      = [(1, ''issue''), (2, ''spec''), (3, ''spec''), (4, ''spec''), (5, ''spec''), (6, ''spec''), (7, ''issue'')]"
  by (simp add: ex_defs model_defs)

section \<open>Migration from the legacy store\<close>

lemma migrate_projects_ok:
  assumes "distinct (map p_id ps)" "distinct (map p_name ps)"
    and "\<forall>p \<in> set ps. \<forall>q \<in> set (lx_project new). p_id q \<noteq> p_id p \<and> p_name q \<noteq> p_name p"
  shows "\<exists>new1. migrate_projects None n ps new = (Inr (n + length ps), new1)
           \<and> set (lx_project new1) = set (lx_project new) \<union> set ps
           \<and> lx_record new1 = lx_record new"
  using assms
proof (induction ps arbitrary: n new)
  case Nil
  then show ?case by simp
next
  case (Cons p ps)
  let ?new0 = "new\<lparr>lx_project := insort_key p_id p (lx_project new)\<rparr>"
  from Cons.prems(3) have ins: "lx_insert_project p new = Inr ?new0"
    by (auto simp add: lx_insert_project_def list_ex_iff)
  have "\<forall>q \<in> set ps. \<forall>q' \<in> set (lx_project ?new0). p_id q' \<noteq> p_id q \<and> p_name q' \<noteq> p_name q"
    using Cons.prems by (auto simp add: set_insort_key)
  with Cons.prems(1,2) Cons.IH [of ?new0 "Suc n"]
  obtain new1 where "migrate_projects None (Suc n) ps ?new0 = (Inr (Suc n + length ps), new1)"
      "set (lx_project new1) = set (lx_project ?new0) \<union> set ps"
      "lx_record new1 = lx_record ?new0"
    by auto
  with ins show ?case
    by (auto simp add: fault_here_def set_insort_key)
qed

lemma migrate_records_ok:
  assumes "distinct (map r_id rs)"
    and "\<forall>r \<in> set rs. \<forall>q \<in> set (lx_record new). l_id q \<noteq> r_id r"
    and "\<forall>r \<in> set rs. valid_kind (r_kind r) \<and> valid_status (r_status r)"
  shows "\<exists>new1. migrate_records None n rs c old new =
             (Inr (c + length (filter (\<lambda>r. old_embedding old (r_id r) \<noteq> None) rs)), old, new1)
           \<and> set (lx_record new1) =
               set (lx_record new) \<union> (\<lambda>r. migrated_row r (old_embedding old (r_id r))) ` set rs
           \<and> length (lx_record new1) = length (lx_record new) + length rs
           \<and> lx_project new1 = lx_project new"
  using assms
proof (induction rs arbitrary: n c new)
  case Nil
  then show ?case by simp
next
  case (Cons r rs)
  let ?row = "migrated_row r (old_embedding old (r_id r))"
  let ?new0 = "new\<lparr>lx_record := insort_key l_id ?row (lx_record new),
                    lx_seq := max (lx_seq new) (l_id ?row)\<rparr>"
  let ?c0 = "if old_embedding old (r_id r) \<noteq> None then Suc c else c"
  have id: "l_id ?row = r_id r" by (simp add: migrated_row_def)
  from Cons.prems(2,3) have ins: "lx_insert_record_with_id ?row new = Inr ?new0"
    by (auto simp add: lx_insert_record_with_id_def list_ex_iff check_constraints_def
          migrated_row_def)
  have "\<forall>q \<in> set rs. \<forall>q' \<in> set (lx_record ?new0). l_id q' \<noteq> r_id q"
    using Cons.prems(1,2) by (auto simp add: set_insort_key id)
  with Cons.prems(1,3) Cons.IH [of ?new0 "Suc n" ?c0]
  obtain new1 where
      "migrate_records None (Suc n) rs ?c0 old ?new0 =
         (Inr (?c0 + length (filter (\<lambda>r. old_embedding old (r_id r) \<noteq> None) rs)), old, new1)"
      "set (lx_record new1) =
         set (lx_record ?new0) \<union> (\<lambda>r. migrated_row r (old_embedding old (r_id r))) ` set rs"
      "length (lx_record new1) = length (lx_record ?new0) + length rs"
      "lx_project new1 = lx_project ?new0"
    by auto
  with ins show ?case
    by (auto simp add: fault_here_def old_select_embedding_def set_insort_key)
qed

lemma migrate_records_reads_only:
  "migrate_records fault n rs c old new = (res, old1, new1) \<Longrightarrow> old1 = old"
  by (induction rs arbitrary: n c new)
     (auto simp add: old_select_embedding_def Let_def split: option.splits sum.splits)

lemma migrateFromDb_reads_only: "fst (snd (migrateFromDb fault old new)) = old"
  by (auto simp add: migrateFromDb_def old_select_projects_def old_select_records_def
        split: sum.splits prod.splits dest: migrate_records_reads_only)

text \<open>Claim C7. For every legacy store that satisfies its schema, migrated into an empty
  target, \<open>migrateFromDb\<close> succeeds and reports the number of project rows, the number of
  record rows and the number of records that have an embedding row; the target then holds
  exactly the projects of the source and, for every record, a row with the same columns and
  the embedding of its embedding row, or \<open>NULL\<close> when it has none. An empty source gives
  three zeros. The source store is returned as it was: the script only reads it.\<close>

theorem migration_reports_counts:
  assumes "sv_schema_ok old" and "lx_project new = []" and "lx_record new = []"
  shows "\<exists>new1. migrateFromDb None old new =
           (Inr \<lparr>st_projects = length (sv_project old),
                 st_records = length (sv_record old),
                 st_embeddings = length (filter (\<lambda>r. old_embedding old (r_id r) \<noteq> None)
                                           (sv_record old))\<rparr>,
            old, new1)
         \<and> set (lx_project new1) = set (sv_project old)
         \<and> set (lx_record new1) =
             (\<lambda>r. migrated_row r (old_embedding old (r_id r))) ` set (sv_record old)
         \<and> length (lx_record new1) = length (sv_record old)
         \<and> (\<forall>r \<in> set (sv_record old).
               old_embedding old (r_id r) = None \<longrightarrow> migrated_row r None \<in> set (lx_record new1))"
proof -
  from assms(1) have
      d: "distinct (map p_id (sv_project old))" "distinct (map p_name (sv_project old))"
         "distinct (map r_id (sv_record old))"
      and v: "\<forall>r \<in> set (sv_record old). valid_kind (r_kind r) \<and> valid_status (r_status r)"
    by (auto simp add: sv_schema_ok_def list_all_iff)
  from d(1,2) assms(2) migrate_projects_ok [of "sv_project old" new 1]
  obtain new1 where p: "migrate_projects None 1 (sv_project old) new
                          = (Inr (1 + length (sv_project old)), new1)"
      "set (lx_project new1) = set (sv_project old)" "lx_record new1 = lx_record new"
    by auto
  from d(3) v p(3) assms(3)
    migrate_records_ok [of "sv_record old" new1 "1 + length (sv_project old)" 0 old]
  obtain new2 where r: "migrate_records None (1 + length (sv_project old)) (sv_record old) 0 old new1
        = (Inr (length (filter (\<lambda>r. old_embedding old (r_id r) \<noteq> None) (sv_record old))), old, new2)"
      "set (lx_record new2) =
         (\<lambda>r. migrated_row r (old_embedding old (r_id r))) ` set (sv_record old)"
      "length (lx_record new2) = length (sv_record old)"
      "lx_project new2 = lx_project new1"
    by auto
  have "migrateFromDb None old new =
           (Inr \<lparr>st_projects = length (sv_project old),
                 st_records = length (sv_record old),
                 st_embeddings = length (filter (\<lambda>r. old_embedding old (r_id r) \<noteq> None)
                                           (sv_record old))\<rparr>,
            old, new2)"
    using p(1) r(1)
    by (simp add: migrateFromDb_def createSchema_def fault_here_def old_select_projects_def
          old_select_records_def)
  moreover have "\<forall>r \<in> set (sv_record old).
               old_embedding old (r_id r) = None \<longrightarrow> migrated_row r None \<in> set (lx_record new2)"
    using r(2) by force
  ultimately show ?thesis using p(2) r(2,3,4) by auto
qed


text \<open>An empty source, and a source with one project and three records of which two are
  embedded: the counts are 1, 3 and 2, the orphan gets a \<open>NULL\<close> embedding, and all three
  records can be read back by id.\<close>

theorem migration_reports_counts_witness:
  "sv_schema_ok ex_blank_old \<and> sv_schema_ok ex_mig_old
   \<and> fst (migrateFromDb None ex_blank_old empty_lx_db)
       = Inr \<lparr>st_projects = 0, st_records = 0, st_embeddings = 0\<rparr>
   \<and> fst (migrateFromDb None ex_mig_old empty_lx_db)
       = Inr \<lparr>st_projects = 1, st_records = 3, st_embeddings = 2\<rparr>
   \<and> fst (snd (migrateFromDb None ex_mig_old empty_lx_db)) = ex_mig_old
   \<and> map (\<lambda>r. (l_id r, l_embedding r)) (lx_record (snd (snd (migrateFromDb None ex_mig_old empty_lx_db))))
       = [(1, Some [1, 0]), (2, Some [0, 1]), (3, None)]
   \<and> map (\<lambda>i. map_option w_id (lx_select_record (snd (snd (migrateFromDb None ex_mig_old empty_lx_db))) i))
         [1, 2, 3] = [Some 1, Some 2, Some 3]"
proof -
  have ok: "sv_schema_ok ex_blank_old" "sv_schema_ok ex_mig_old"
    by (simp_all add: sv_schema_ok_def ex_defs valid_kind_def valid_status_def)
  have e: "lx_project empty_lx_db = []" "lx_record empty_lx_db = []"
    by (simp_all add: empty_lx_db_def)
  from migration_reports_counts [OF ok(1) e]
  have b: "fst (migrateFromDb None ex_blank_old empty_lx_db)
       = Inr \<lparr>st_projects = 0, st_records = 0, st_embeddings = 0\<rparr>"
    by (auto simp add: ex_defs)
  from migration_reports_counts [OF ok(2) e]
  have m: "fst (migrateFromDb None ex_mig_old empty_lx_db)
       = Inr \<lparr>st_projects = 1, st_records = 3, st_embeddings = 2\<rparr>"
      "fst (snd (migrateFromDb None ex_mig_old empty_lx_db)) = ex_mig_old"
    by (auto simp add: ex_defs old_embedding_def)
  have r: "map (\<lambda>r. (l_id r, l_embedding r)) (lx_record (snd (snd (migrateFromDb None ex_mig_old empty_lx_db))))
       = [(1, Some [1, 0]), (2, Some [0, 1]), (3, None)]"
    by (simp add: ex_defs model_defs)
  have g: "map (\<lambda>i. map_option w_id (lx_select_record (snd (snd (migrateFromDb None ex_mig_old empty_lx_db))) i))
         [1, 2, 3] = [Some 1, Some 2, Some 3]"
    by (simp add: ex_defs model_defs)
  show ?thesis using ok b m r g by simp
qed

section \<open>Failure of the automatic migration\<close>

lemma migrate_keeps_old:
  assumes "fs_old files = Some old"
  shows "fs_old (snd (migrate fault files)) = Some old
       \<and> fs_backup (snd (migrate fault files)) = fs_backup files"
  using assms
    migrateFromDb_reads_only
      [of fault old "case fs_new files of None \<Rightarrow> empty_lx_db | Some new \<Rightarrow> new"]
  by (auto simp add: migrate_def split: prod.splits)

text \<open>Claim C8, amended. If \<open>_autoMigrate\<close> throws, the legacy store file is as it was
  (neither renamed nor deleted, and no backup is written), the error thrown is the guidance
  text followed by the message of the original error, and the native store file is absent
  afterwards provided its removal succeeds.\<close>

theorem autoMigrate_failure_keeps_legacy_store:
  assumes "fs_old files = Some old" and "fs_new files = None"
    and "fst (autoMigrate e files) = Inl err"
  shows "fs_old (snd (autoMigrate e files)) = Some old
       \<and> fs_backup (snd (autoMigrate e files)) = fs_backup files
       \<and> (env_unlink_ok e \<longrightarrow> fs_new (snd (autoMigrate e files)) = None)
       \<and> (case env_import_error e of
            Some msg \<Rightarrow> err = Error (IMPORT_GUIDANCE @ msg)
          | None \<Rightarrow>
              (\<exists>err0. fst (migrate (env_fault e) files) = Inl err0
                     \<and> err = Error (MIGRATION_GUIDANCE @ error_message err0)))"
proof (cases "env_import_error e")
  case (Some msg)
  with assms show ?thesis by (simp add: autoMigrate_def)
next
  case None
  obtain res files1 where m: "migrate (env_fault e) files = (res, files1)"
    by (cases "migrate (env_fault e) files")
  with migrate_keeps_old [OF assms(1), of "env_fault e"]
  have k: "fs_old files1 = Some old" "fs_backup files1 = fs_backup files" by simp_all
  from assms(3) None m obtain err0 where r: "res = Inl err0"
    by (cases res) (auto simp add: autoMigrate_def split: if_splits)
  with None m k assms(3) show ?thesis
    by (auto simp add: autoMigrate_def Let_def)
qed

text \<open>A storage fault in the first record insert, after the project row was written: the
  partial native file is removed.\<close>

theorem autoMigrate_failure_witness:
  "fst (autoMigrate (ex_env True) ex_files)
     = Inl (Error (MIGRATION_GUIDANCE @ ''disk I/O error''))
   \<and> fs_old (snd (autoMigrate (ex_env True) ex_files)) = Some ex_mig_old
   \<and> fs_backup (snd (autoMigrate (ex_env True) ex_files)) = None
   \<and> fs_new (snd (autoMigrate (ex_env True) ex_files)) = None"
proof -
  have f: "fst (autoMigrate (ex_env True) ex_files)
     = Inl (Error (MIGRATION_GUIDANCE @ ''disk I/O error''))"
    by (simp add: ex_defs model_defs)
  have o: "fs_old ex_files = Some ex_mig_old" "fs_new ex_files = None"
    by (simp_all add: ex_files_def)
  from autoMigrate_failure_keeps_legacy_store [OF o f] f show ?thesis
    by (simp add: ex_env_def ex_files_def)
qed

text \<open>Claim C8 as stated fails: \<open>_autoMigrate\<close> ignores an error of \<open>unlink\<close>, so when the
  removal fails the partially written native store (here with the project row and no
  record) stays on disk.\<close>

theorem autoMigrate_failed_unlink_leaves_partial_store:
  "fst (autoMigrate (ex_env False) ex_files)
     = Inl (Error (MIGRATION_GUIDANCE @ ''disk I/O error''))
   \<and> fs_new (snd (autoMigrate (ex_env False) ex_files))
     = Some \<lparr>lx_project = [ex_p1], lx_record = [], lx_seq = 0\<rparr>"
  by (simp add: ex_defs model_defs)

section \<open>Upserting the same embedding twice\<close>






















lemma own_row_updated [simp]:
  "own_row proj kind (dedup_update a e now r) = own_row proj kind r"
  by (simp add: own_row_def dedup_update_def)

lemma l_id_updated [simp]: "l_id (dedup_update a e now r) = l_id r"
  by (simp add: dedup_update_def)







lemma r_dedup_update_simps [simp]:
  "r_id (r_dedup_update a now r) = r_id r"
  "r_project_id (r_dedup_update a now r) = r_project_id r"
  "r_kind (r_dedup_update a now r) = r_kind r"
  by (simp_all add: r_dedup_update_def)
























end
